theory Spec2Isabelle
  imports Main "HOL-Library.Sublist"
begin

section \<open>Values, exceptions and messages\<close>

text \<open>
  The notebook \<^verbatim>\<open>Data_Analysis_agent.ipynb\<close> defines three tools, the dispatcher
  \<^verbatim>\<open>handle_tool_calls\<close> and the router loop \<^verbatim>\<open>run_agent\<close>. Python values that
  travel through the code (decoded JSON arguments, the values of a message dictionary) are
  a datatype. A dictionary is an association list in insertion order, read with
  \<^const>\<open>map_of\<close>. A string is a list of characters below 256. A float is carried as its
  literal: nothing here computes with one.
\<close>

datatype pyval =
    PNone
  | PBool bool
  | PInt int
  | PFloat string
  | PStr string
  | PList "pyval list"
  | PDict "(string \<times> pyval) list"

text \<open>
  Exceptions that can leave a function of the notebook. \<open>KeyError\<close> carries the missing
  key and \<open>AttributeError\<close> the attribute that was read. \<open>JSONDecodeError\<close>,
  \<open>ValueError\<close> and \<open>RecursionError\<close> are what \<^verbatim>\<open>json.loads\<close> raises on a text
  it rejects (no JSON; an integer literal beyond the digit limit; nesting beyond the
  recursion limit), each with the text \<^verbatim>\<open>str(e)\<close>. \<open>Raised\<close> is an exception
  raised by an external collaborator (pandas, DuckDB, the OpenAI client), with its text.
  Collaborators are taken to raise subclasses of \<^verbatim>\<open>Exception\<close> only.
\<close>

datatype exn =
    KeyError string
  | JSONDecodeError string
  | ValueError string
  | RecursionError string
  | TypeError
  | AttributeError string
  | Raised string

text \<open>One entry of \<^verbatim>\<open>message.tool_calls\<close>: \<^verbatim>\<open>id\<close>, \<^verbatim>\<open>function.name\<close>,
  \<^verbatim>\<open>function.arguments\<close>.\<close>

record tool_call =
  call_id :: string
  name :: string
  arguments :: string

text \<open>The message object \<^verbatim>\<open>response.choices[0].message\<close> of a router call: both
  fields may be \<^verbatim>\<open>None\<close>.\<close>

record assistant_message =
  content :: "string option"
  tool_calls :: "tool_call list option"

text \<open>
  An element of the \<^verbatim>\<open>messages\<close> list: a plain Python value (the dictionaries the code
  builds, or whatever the caller put into the list) or a message object appended from a
  response.
\<close>

datatype msg = Val pyval | Obj assistant_message

text \<open>\<^verbatim>\<open>isinstance(message, dict) and message.get("role") == "system"\<close>; the check
  around it is \<^verbatim>\<open>any\<close>, here \<^const>\<open>list_ex\<close>.\<close>

fun is_system :: "msg \<Rightarrow> bool" where
  "is_system (Val (PDict d)) = (map_of d ''role'' = Some (PStr ''system''))"
| "is_system _ = False"

definition SYSTEM_PROMPT :: string where
  "SYSTEM_PROMPT = CHR 0x0A #
     ''You are a helpful assistant that can answer questions about the Store Sales Price Elasticity Promotions dataset.''
     @ [CHR 0x0A]"

definition user_message :: "string \<Rightarrow> msg" where
  "user_message q = Val (PDict [(''role'', PStr ''user''), (''content'', PStr q)])"

definition system_prompt :: msg where
  "system_prompt = Val (PDict [(''role'', PStr ''system''), (''content'', PStr SYSTEM_PROMPT)])"

definition tool_message :: "string \<Rightarrow> string \<Rightarrow> msg" where
  "tool_message result tid =
     Val (PDict [(''role'', PStr ''tool''), (''content'', PStr result), (''tool_call_id'', PStr tid)])"

section \<open>External collaborators\<close>

text \<open>
  Everything outside the notebook is a parameter. A collaborator that does I/O reads and
  changes a world \<open>'w\<close> and either returns a value or raises: \<open>Inl m\<close> is an exception
  whose \<^verbatim>\<open>str(e)\<close> is \<open>m\<close>. \<^verbatim>\<open>json.loads\<close> does no I/O: it gives the
  decoded value or the exception it raises. The three prompt templates are filled in by
  \<^verbatim>\<open>str.format\<close> and sent with \<^verbatim>\<open>client.chat.completions.create\<close>; each such call
  is one collaborator that receives the values put into the template and gives
  \<^verbatim>\<open>response.choices[0].message.content\<close>.
\<close>

type_synonym ('w, 'a) ext = "'w \<Rightarrow> (string + 'a) \<times> 'w"

record dataframe =
  columns :: "string list"
  rows :: "pyval list list"

text \<open>What \<^verbatim>\<open>client.beta.chat.completions.parse\<close> leaves in
  \<^verbatim>\<open>response.choices[0].message.content\<close>: \<^verbatim>\<open>None\<close>, a string, or an object with
  attributes.\<close>

datatype pyobj = NoneObj | StrObj string | Instance "(string \<times> pyval) list"

record 'w env =
  router_create :: "msg list \<Rightarrow> ('w, assistant_message) ext"
  json_loads :: "string \<Rightarrow> exn + pyval"
  read_parquet :: "('w, dataframe) ext"
  duckdb_create_table :: "string \<Rightarrow> dataframe \<Rightarrow> ('w, unit) ext"
  duckdb_sql_to_string :: "string \<Rightarrow> ('w, string) ext"
  sql_generation_create :: "pyval \<Rightarrow> string list \<Rightarrow> string \<Rightarrow> ('w, string option) ext"
  data_analysis_create :: "pyval \<Rightarrow> pyval \<Rightarrow> ('w, string option) ext"
  chart_configuration_parse :: "pyval \<Rightarrow> pyval \<Rightarrow> ('w, pyobj) ext"
  create_chart_create :: "(string \<times> pyval) list \<Rightarrow> ('w, string option) ext"

section \<open>String helpers of Python\<close>

text \<open>\<^verbatim>\<open>str.isspace\<close> on one character below 256.\<close>

definition is_space :: "char \<Rightarrow> bool" where
  "is_space c = (let n = of_char c :: nat in
     (9 \<le> n \<and> n \<le> 13) \<or> (28 \<le> n \<and> n \<le> 32) \<or> n = 133 \<or> n = 160)"

definition strip :: "string \<Rightarrow> string" where
  "strip s = rev (dropWhile is_space (rev (dropWhile is_space s)))"

text \<open>\<^verbatim>\<open>s.replace(old, "")\<close> for a non-empty \<open>old\<close>: the occurrences are removed from
  left to right, without overlap.\<close>

function remove_all :: "string \<Rightarrow> string \<Rightarrow> string" where
  "remove_all old [] = []"
| "remove_all old (c # cs) =
     (if old \<noteq> [] \<and> prefix old (c # cs)
      then remove_all old (drop (length old) (c # cs))
      else c # remove_all old cs)"
  by pat_completeness auto
termination
  by (relation "measure (\<lambda>(old, s). length s)") (auto simp: Suc_le_eq)

section \<open>Tool 1: database lookup\<close>

text \<open>\<^verbatim>\<open>generate_sql_query(prompt, columns, table_name)\<close>\<close>

definition generate_sql_query ::
  "'w env \<Rightarrow> pyval \<Rightarrow> string list \<Rightarrow> string \<Rightarrow> ('w, string option) ext" where
  "generate_sql_query env prompt cols table_name = sql_generation_create env prompt cols table_name"

text \<open>
  The body of the \<^verbatim>\<open>try\<close> block of \<^verbatim>\<open>lookup_sales_data\<close>. \<open>Inl m\<close> is an exception
  with text \<open>m\<close>; \<^verbatim>\<open>sql_query.strip()\<close> on \<^verbatim>\<open>None\<close> is an AttributeError.
\<close>

definition lookup_sales_data_try :: "'w env \<Rightarrow> pyval \<Rightarrow> ('w, string) ext" where
  "lookup_sales_data_try env prompt w =
     (let table_name = ''sales'' in
      case read_parquet env w of
        (Inl m, w1) \<Rightarrow> (Inl m, w1)
      | (Inr df, w1) \<Rightarrow>
          (case duckdb_create_table env table_name df w1 of
             (Inl m, w2) \<Rightarrow> (Inl m, w2)
           | (Inr u, w2) \<Rightarrow>
               (case generate_sql_query env prompt (columns df) table_name w2 of
                  (Inl m, w3) \<Rightarrow> (Inl m, w3)
                | (Inr None, w3) \<Rightarrow>
                    (Inl (CHR 0x27 # ''NoneType'' @ CHR 0x27 # '' object has no attribute '' @
                          CHR 0x27 # ''strip'' @ [CHR 0x27]), w3)
                | (Inr (Some sql_query), w3) \<Rightarrow>
                    duckdb_sql_to_string env
                      (remove_all ''```'' (remove_all ''```sql'' (strip sql_query))) w3)))"

text \<open>\<^verbatim>\<open>lookup_sales_data(prompt)\<close>: \<^verbatim>\<open>except Exception as e\<close> turns every exception of
  the body into the returned text.\<close>

definition lookup_sales_data :: "'w env \<Rightarrow> pyval \<Rightarrow> 'w \<Rightarrow> string \<times> 'w" where
  "lookup_sales_data env prompt w =
     (case lookup_sales_data_try env prompt w of
        (Inr result, w') \<Rightarrow> (result, w')
      | (Inl m, w') \<Rightarrow> (''Error accessing data: '' @ m, w'))"

section \<open>Tool 2: data analysis\<close>

text \<open>\<^verbatim>\<open>analyze_sales_data(prompt, data)\<close>: no handler; an empty or missing answer is
  replaced by a fixed text.\<close>

definition analyze_sales_data :: "'w env \<Rightarrow> pyval \<Rightarrow> pyval \<Rightarrow> 'w \<Rightarrow> (exn + string) \<times> 'w" where
  "analyze_sales_data env prompt data w =
     (case data_analysis_create env prompt data w of
        (Inl m, w') \<Rightarrow> (Inl (Raised m), w')
      | (Inr analysis, w') \<Rightarrow>
          (case analysis of
             None \<Rightarrow> (Inr ''No analysis could be generated'', w')
           | Some a \<Rightarrow> (Inr (if a \<noteq> [] then a else ''No analysis could be generated''), w')))"

section \<open>Tool 3: data visualization\<close>

text \<open>Reading one attribute of an object that has the attributes \<open>attrs\<close>.\<close>

definition read_attribute :: "(string \<times> pyval) list \<Rightarrow> string \<Rightarrow> exn + pyval" where
  "read_attribute attrs a =
     (case map_of attrs a of None \<Rightarrow> Inl (AttributeError a) | Some v \<Rightarrow> Inr v)"

text \<open>
  The body of the \<^verbatim>\<open>try\<close> block of \<^verbatim>\<open>extract_chart_config\<close>: the dictionary
  display reads the four attributes in order. Neither \<^verbatim>\<open>None\<close> nor a string has an
  attribute \<^verbatim>\<open>chart_type\<close>, the first one that is read, so on these the later reads
  are not reached.
\<close>

fun extract_chart_config_try ::
  "pyobj \<Rightarrow> pyval \<Rightarrow> exn + (string \<times> pyval) list" where
  "extract_chart_config_try NoneObj data = Inl (AttributeError ''chart_type'')"
| "extract_chart_config_try (StrObj s) data = Inl (AttributeError ''chart_type'')"
| "extract_chart_config_try (Instance attrs) data =
     (case read_attribute attrs ''chart_type'' of Inl e \<Rightarrow> Inl e | Inr ct \<Rightarrow>
       (case read_attribute attrs ''x_axis'' of Inl e \<Rightarrow> Inl e | Inr xa \<Rightarrow>
         (case read_attribute attrs ''y_axis'' of Inl e \<Rightarrow> Inl e | Inr ya \<Rightarrow>
           (case read_attribute attrs ''title'' of Inl e \<Rightarrow> Inl e | Inr ti \<Rightarrow>
              Inr [(''chart_type'', ct), (''x_axis'', xa), (''y_axis'', ya), (''title'', ti),
                   (''data'', data)]))))"

definition default_chart_config :: "pyval \<Rightarrow> pyval \<Rightarrow> (string \<times> pyval) list" where
  "default_chart_config data visualization_goal =
     [(''chart_type'', PStr ''line''), (''x_axis'', PStr ''date''), (''y_axis'', PStr ''value''),
      (''title'', visualization_goal), (''data'', data)]"

text \<open>\<^verbatim>\<open>extract_chart_config(data, visualization_goal)\<close>: the client call is outside
  the \<^verbatim>\<open>try\<close> block.\<close>

definition extract_chart_config ::
  "'w env \<Rightarrow> pyval \<Rightarrow> pyval \<Rightarrow> 'w \<Rightarrow> (exn + (string \<times> pyval) list) \<times> 'w" where
  "extract_chart_config env data visualization_goal w =
     (case chart_configuration_parse env data visualization_goal w of
        (Inl m, w') \<Rightarrow> (Inl (Raised m), w')
      | (Inr cont, w') \<Rightarrow>
          (case extract_chart_config_try cont data of
             Inr config \<Rightarrow> (Inr config, w')
           | Inl e \<Rightarrow> (Inr (default_chart_config data visualization_goal), w')))"

text \<open>\<^verbatim>\<open>create_chart(config)\<close>: \<^verbatim>\<open>code.replace\<close> on \<^verbatim>\<open>None\<close> is an
  AttributeError.\<close>

definition create_chart :: "'w env \<Rightarrow> (string \<times> pyval) list \<Rightarrow> 'w \<Rightarrow> (exn + string) \<times> 'w" where
  "create_chart env config w =
     (case create_chart_create env config w of
        (Inl m, w') \<Rightarrow> (Inl (Raised m), w')
      | (Inr None, w') \<Rightarrow> (Inl (AttributeError ''replace''), w')
      | (Inr (Some code), w') \<Rightarrow>
          (Inr (strip (remove_all ''```'' (remove_all ''```python'' code))), w'))"

definition generate_visualization ::
  "'w env \<Rightarrow> pyval \<Rightarrow> pyval \<Rightarrow> 'w \<Rightarrow> (exn + string) \<times> 'w" where
  "generate_visualization env data visualization_goal w =
     (case extract_chart_config env data visualization_goal w of
        (Inl e, w') \<Rightarrow> (Inl e, w')
      | (Inr config, w') \<Rightarrow> create_chart env config w')"

section \<open>The router\<close>

text \<open>
  \<^verbatim>\<open>tool_implementations\<close> maps three names to the three functions.
  \<^verbatim>\<open>function(**function_args)\<close> binds the decoded arguments to the parameters of the
  function: a value that is not a dictionary, a key that is no parameter and a parameter
  without a key are each a TypeError. The values themselves are not checked.
\<close>

datatype tool = Lookup_sales_data | Analyze_sales_data | Generate_visualization

definition tool_implementations :: "string \<Rightarrow> tool option" where
  "tool_implementations =
     map_of [(''lookup_sales_data'', Lookup_sales_data),
             (''analyze_sales_data'', Analyze_sales_data),
             (''generate_visualization'', Generate_visualization)]"

fun parameters :: "tool \<Rightarrow> string list" where
  "parameters Lookup_sales_data = [''prompt'']"
| "parameters Analyze_sales_data = [''prompt'', ''data'']"
| "parameters Generate_visualization = [''data'', ''visualization_goal'']"

fun bind_kwargs :: "string list \<Rightarrow> pyval \<Rightarrow> exn + (string \<Rightarrow> pyval)" where
  "bind_kwargs ps (PDict kvs) =
     (if list_ex (\<lambda>k. k \<notin> set ps) (map fst kvs) then Inl TypeError
      else if list_ex (\<lambda>p. p \<notin> set (map fst kvs)) ps then Inl TypeError
      else Inr (\<lambda>p. the (map_of kvs p)))"
| "bind_kwargs ps v = Inl TypeError"

fun apply_tool :: "'w env \<Rightarrow> tool \<Rightarrow> (string \<Rightarrow> pyval) \<Rightarrow> 'w \<Rightarrow> (exn + string) \<times> 'w" where
  "apply_tool env Lookup_sales_data kw w =
     (case lookup_sales_data env (kw ''prompt'') w of (result, w') \<Rightarrow> (Inr result, w'))"
| "apply_tool env Analyze_sales_data kw w =
     analyze_sales_data env (kw ''prompt'') (kw ''data'') w"
| "apply_tool env Generate_visualization kw w =
     generate_visualization env (kw ''data'') (kw ''visualization_goal'') w"

text \<open>
  One pass of the \<^verbatim>\<open>for\<close> loop of \<^verbatim>\<open>handle_tool_calls\<close> up to the value of
  \<^verbatim>\<open>result\<close>: the lookup in \<^verbatim>\<open>tool_implementations\<close>, \<^verbatim>\<open>json.loads\<close>, the call.
\<close>

definition invoke :: "'w env \<Rightarrow> tool_call \<Rightarrow> 'w \<Rightarrow> (exn + string) \<times> 'w" where
  "invoke env tc w =
     (case tool_implementations (name tc) of
        None \<Rightarrow> (Inl (KeyError (name tc)), w)
      | Some function \<Rightarrow>
          (case json_loads env (arguments tc) of
             Inl e \<Rightarrow> (Inl e, w)
           | Inr function_args \<Rightarrow>
               (case bind_kwargs (parameters function) function_args of
                  Inl e \<Rightarrow> (Inl e, w)
                | Inr kw \<Rightarrow> apply_tool env function kw w)))"

text \<open>
  \<^verbatim>\<open>handle_tool_calls(tool_calls, messages)\<close>. The list is changed in place, so an
  exception leaves it as it was when the exception was raised: the result is the exception
  if one was raised, the list, and the world.
\<close>

fun handle_tool_calls ::
  "'w env \<Rightarrow> tool_call list \<Rightarrow> msg list \<Rightarrow> 'w \<Rightarrow> exn option \<times> msg list \<times> 'w" where
  "handle_tool_calls env [] messages w = (None, messages, w)"
| "handle_tool_calls env (tc # tcs) messages w =
     (case invoke env tc w of
        (Inl e, w') \<Rightarrow> (Some e, messages, w')
      | (Inr result, w') \<Rightarrow>
          handle_tool_calls env tcs (messages @ [tool_message result (call_id tc)]) w')"

text \<open>The argument of \<^verbatim>\<open>run_agent\<close>: a string or a list.\<close>

datatype agent_input = Text string | Messages "msg list"

text \<open>\<^verbatim>\<open>if isinstance(messages, str): messages = [{"role": "user", "content": messages}]\<close>\<close>

fun as_messages :: "agent_input \<Rightarrow> msg list" where
  "as_messages (Text q) = [user_message q]"
| "as_messages (Messages ms) = ms"

text \<open>The system-prompt check at the start of \<^verbatim>\<open>run_agent\<close>.\<close>

definition ensure_system_prompt :: "msg list \<Rightarrow> msg list" where
  "ensure_system_prompt messages =
     (if \<not> list_ex is_system messages then messages @ [system_prompt] else messages)"

text \<open>How a run ends: the returned \<^verbatim>\<open>content\<close> or the exception that left
  \<^verbatim>\<open>run_agent\<close>, the list as it is then, the number of router calls made, the world.\<close>

record 'w outcome =
  result :: "exn + string option"
  final_messages :: "msg list"
  router_calls :: nat
  world :: 'w

text \<open>\<^verbatim>\<open>if tool_calls:\<close> holds for a non-empty list.\<close>

fun truthy :: "tool_call list option \<Rightarrow> bool" where
  "truthy None = False"
| "truthy (Some tcs) = (tcs \<noteq> [])"

text \<open>One pass of \<^verbatim>\<open>while True\<close>: the run ends (\<open>Inl\<close>) or goes on with the new list.
  The counter is a ghost: it counts the router calls.\<close>

fun loop_body ::
  "'w env \<Rightarrow> msg list \<times> nat \<times> 'w \<Rightarrow> 'w outcome + msg list \<times> nat \<times> 'w" where
  "loop_body env (messages, n, w) =
     (case router_create env messages w of
        (Inl m, w') \<Rightarrow>
          Inl \<lparr>result = Inl (Raised m), final_messages = messages, router_calls = Suc n, world = w'\<rparr>
      | (Inr message, w') \<Rightarrow>
          (let messages' = messages @ [Obj message] in
           if truthy (tool_calls message)
           then (case handle_tool_calls env (the (tool_calls message)) messages' w' of
                   (Some e, messages'', w'') \<Rightarrow>
                     Inl \<lparr>result = Inl e, final_messages = messages'', router_calls = Suc n,
                          world = w''\<rparr>
                 | (None, messages'', w'') \<Rightarrow> Inr (messages'', Suc n, w''))
           else Inl \<lparr>result = Inr (content message), final_messages = messages',
                     router_calls = Suc n, world = w'\<rparr>))"

partial_function (option) run_loop ::
  "'w env \<Rightarrow> msg list \<times> nat \<times> 'w \<Rightarrow> 'w outcome option" where
  "run_loop env s = (case loop_body env s of Inl out \<Rightarrow> Some out | Inr s' \<Rightarrow> run_loop env s')"

text \<open>\<^verbatim>\<open>run_agent(messages)\<close>; \<open>None\<close> is a run that never ends.\<close>

definition run_agent :: "'w env \<Rightarrow> agent_input \<Rightarrow> 'w \<Rightarrow> 'w outcome option" where
  "run_agent env inp w = run_loop env (ensure_system_prompt (as_messages inp), 0, w)"

text \<open>The first \<open>k\<close> passes of the loop, for statements about the states a run goes
  through.\<close>

fun run_steps ::
  "'w env \<Rightarrow> nat \<Rightarrow> msg list \<times> nat \<times> 'w \<Rightarrow> 'w outcome + msg list \<times> nat \<times> 'w" where
  "run_steps env 0 s = Inr s"
| "run_steps env (Suc k) s =
     (case loop_body env s of Inl out \<Rightarrow> Inl out | Inr s' \<Rightarrow> run_steps env k s')"

section \<open>Counting system messages\<close>

text \<open>The number of system messages the check of \<^verbatim>\<open>run_agent\<close> recognises.\<close>

definition count_system :: "msg list \<Rightarrow> nat" where
  "count_system messages = length (filter is_system messages)"

section \<open>Stub collaborators for concrete runs\<close>

text \<open>
  The world of the stubs is a clock that every collaborator call advances. The stub of
  DuckDB answers a query while the clock is below 5 and raises afterwards; the stub of the
  analysis call always raises.
  \<open>demo_json_loads\<close> gives what \<^verbatim>\<open>json.loads\<close> gives on the texts used below:
  four objects, and \<^verbatim>\<open>not json\<close>, which is no JSON.
\<close>

definition quoted :: "string \<Rightarrow> string" where
  "quoted s = CHR 0x22 # s @ [CHR 0x22]"

definition args_prompt :: string where
  "args_prompt = ''{'' @ quoted ''prompt'' @ '': '' @ quoted ''q'' @ ''}''"

definition args_prompt_data :: string where
  "args_prompt_data =
     ''{'' @ quoted ''prompt'' @ '': '' @ quoted ''q'' @ '', '' @ quoted ''data'' @ '': '' @
     quoted ''d'' @ ''}''"

definition args_prompt_number :: string where
  "args_prompt_number = ''{'' @ quoted ''prompt'' @ '': 7}''"

definition demo_json_loads :: "string \<Rightarrow> exn + pyval" where
  "demo_json_loads s =
     (if s = args_prompt then Inr (PDict [(''prompt'', PStr ''q'')])
      else if s = args_prompt_data
        then Inr (PDict [(''prompt'', PStr ''q''), (''data'', PStr ''d'')])
      else if s = args_prompt_number then Inr (PDict [(''prompt'', PInt 7)])
      else if s = ''{}'' then Inr (PDict [])
      else Inl (JSONDecodeError ''Expecting value: line 1 column 1 (char 0)''))"

definition demo_env :: "(msg list \<Rightarrow> (nat, assistant_message) ext) \<Rightarrow> nat env" where
  "demo_env router =
     \<lparr>router_create = router,
      json_loads = demo_json_loads,
      read_parquet = (\<lambda>w. (Inr \<lparr>columns = [''Store_Number'', ''Qty_Sold''], rows = []\<rparr>, Suc w)),
      duckdb_create_table = (\<lambda>table_name df w. (Inr (), Suc w)),
      duckdb_sql_to_string =
        (\<lambda>q w. if w < 5 then (Inr (''rows of'' @ q), Suc w)
                else (Inl ''Parser Error: syntax error at end of input'', Suc w)),
      sql_generation_create = (\<lambda>prompt cols table_name w. (Inr (Some ''```sql SELECT```''), Suc w)),
      data_analysis_create = (\<lambda>prompt data w. (Inl ''Connection error.'', Suc w)),
      chart_configuration_parse = (\<lambda>data goal w. (Inr (StrObj ''{}''), Suc w)),
      create_chart_create = (\<lambda>config w. (Inr (Some ''```python pass```''), Suc w))\<rparr>"

text \<open>A router that gives the same message on every call, and one that reads its answers
  from a script, one per call (the calls made so far are the message objects in the list).\<close>

definition const_router :: "assistant_message \<Rightarrow> msg list \<Rightarrow> (nat, assistant_message) ext" where
  "const_router message messages w = (Inr message, Suc w)"

fun is_obj :: "msg \<Rightarrow> bool" where
  "is_obj (Obj m) = True"
| "is_obj (Val v) = False"

definition script_router ::
  "assistant_message list \<Rightarrow> msg list \<Rightarrow> (nat, assistant_message) ext" where
  "script_router script messages w =
     (case drop (length (filter is_obj messages)) script of
        [] \<Rightarrow> (Inl ''Connection error.'', Suc w)
      | message # rest \<Rightarrow> (Inr message, Suc w))"

text \<open>The stubs with a client whose structured-output call raises.\<close>

definition parse_raises_env :: "(msg list \<Rightarrow> (nat, assistant_message) ext) \<Rightarrow> nat env" where
  "parse_raises_env router =
     (demo_env router)
       \<lparr>chart_configuration_parse :=
          (\<lambda>data goal w. (Inl ''1 validation error for VisualizationConfig'', Suc w))\<rparr>"

text \<open>A system message as a caller writes one.\<close>

definition system_message :: "string \<Rightarrow> msg" where
  "system_message s = Val (PDict [(''role'', PStr ''system''), (''content'', PStr s)])"

definition request :: "string \<Rightarrow> string \<Rightarrow> string \<Rightarrow> tool_call" where
  "request tid n a = \<lparr>call_id = tid, name = n, arguments = a\<rparr>"

definition requesting :: "tool_call list \<Rightarrow> assistant_message" where
  "requesting tcs = \<lparr>content = None, tool_calls = Some tcs\<rparr>"

definition answering :: "string \<Rightarrow> assistant_message" where
  "answering a = \<lparr>content = Some a, tool_calls = None\<rparr>"

text \<open>A response with neither text nor tool calls.\<close>

definition silent :: assistant_message where
  "silent = \<lparr>content = None, tool_calls = None\<rparr>"

section \<open>Facts about the loop\<close>

lemma run_steps_run_loop:
  "run_steps env k s = Inl out \<Longrightarrow> run_loop env s = Some out"
proof (induction k arbitrary: s)
  case 0
  then show ?case by simp
next
  case (Suc k)
  show ?case
  proof (cases "loop_body env s")
    case (Inl a)
    with Suc.prems show ?thesis by (subst run_loop.simps) simp
  next
    case (Inr s')
    with Suc.prems have "run_steps env k s' = Inl out" by simp
    then have "run_loop env s' = Some out" by (rule Suc.IH)
    with Inr show ?thesis by (subst run_loop.simps) simp
  qed
qed

lemma run_loop_run_steps:
  assumes "run_loop env s = Some out"
  shows "\<exists>k. run_steps env k s = Inl out"
proof (rule run_loop.raw_induct [OF _ assms])
  fix f and env :: "'a env" and s out
  assume IH: "\<And>e t y. f e t = Some y \<Longrightarrow> \<exists>k. run_steps e k t = Inl y"
    and eq: "(case loop_body env s of Inl out \<Rightarrow> Some out | Inr s' \<Rightarrow> f env s') = Some out"
  show "\<exists>k. run_steps env k s = Inl out"
  proof (cases "loop_body env s")
    case (Inl a)
    with eq have "run_steps env (Suc 0) s = Inl out" by simp
    then show ?thesis by blast
  next
    case (Inr s')
    with eq have "f env s' = Some out" by simp
    then obtain k where "run_steps env k s' = Inl out" using IH by blast
    with Inr have "run_steps env (Suc k) s = Inl out" by simp
    then show ?thesis by blast
  qed
qed

lemma run_loop_None_iff:
  "run_loop env s = None \<longleftrightarrow> (\<forall>k. \<exists>s'. run_steps env k s = Inr s')"
proof
  assume n: "run_loop env s = None"
  show "\<forall>k. \<exists>s'. run_steps env k s = Inr s'"
  proof
    fix k
    show "\<exists>s'. run_steps env k s = Inr s'"
    proof (cases "run_steps env k s")
      case (Inl out)
      then have "run_loop env s = Some out" by (rule run_steps_run_loop)
      with n show ?thesis by simp
    next
      case (Inr s')
      then show ?thesis by blast
    qed
  qed
next
  assume a: "\<forall>k. \<exists>s'. run_steps env k s = Inr s'"
  show "run_loop env s = None"
  proof (cases "run_loop env s")
    case None
    then show ?thesis .
  next
    case (Some out)
    then obtain k where "run_steps env k s = Inl out" using run_loop_run_steps by blast
    with a show ?thesis by (metis sum.distinct(1))
  qed
qed

lemma run_steps_add:
  "run_steps env (j + i) s =
     (case run_steps env j s of Inl out \<Rightarrow> Inl out | Inr s' \<Rightarrow> run_steps env i s')"
  by (induction j arbitrary: s) (auto split: sum.splits)

lemma handle_tool_calls_prefix:
  "prefix ms (fst (snd (handle_tool_calls env tcs ms w)))"
proof (induction tcs arbitrary: ms w)
  case Nil
  show ?case by simp
next
  case (Cons tc tcs)
  show ?case
  proof (cases "invoke env tc w")
    case (Pair r w')
    show ?thesis
    proof (cases r)
      case (Inl e)
      with Pair show ?thesis by simp
    next
      case (Inr res)
      have "prefix (ms @ [tool_message res (call_id tc)])
              (fst (snd (handle_tool_calls env tcs (ms @ [tool_message res (call_id tc)]) w')))"
        by (rule Cons.IH)
      then have "prefix ms
              (fst (snd (handle_tool_calls env tcs (ms @ [tool_message res (call_id tc)]) w')))"
        by (rule append_prefixD)
      with Pair Inr show ?thesis by simp
    qed
  qed
qed

lemma handle_tool_calls_append:
  "handle_tool_calls env (tcs1 @ tcs2) ms w =
     (case handle_tool_calls env tcs1 ms w of
        (None, ms1, w1) \<Rightarrow> handle_tool_calls env tcs2 ms1 w1
      | (Some e, ms1, w1) \<Rightarrow> (Some e, ms1, w1))"
  by (induction tcs1 arbitrary: ms w) (auto split: prod.splits sum.splits option.splits)

lemma loop_body_Inr:
  assumes "loop_body env (ms, n, w) = Inr (ms', n', w')"
  shows "strict_prefix ms ms' \<and> n' = Suc n"
proof -
  obtain r w1 where r: "router_create env ms w = (r, w1)" by (cases "router_create env ms w")
  from assms r obtain message where m: "r = Inr message" by (cases r) auto
  from assms r m have t: "truthy (tool_calls message)" by (auto simp: Let_def split: if_splits)
  obtain x ms2 w2 where h:
    "handle_tool_calls env (the (tool_calls message)) (ms @ [Obj message]) w1 = (x, ms2, w2)"
    by (cases "handle_tool_calls env (the (tool_calls message)) (ms @ [Obj message]) w1")
  from assms r m t h have eq: "ms' = ms2" "n' = Suc n" by (auto simp: Let_def split: option.splits)
  have "prefix (ms @ [Obj message]) ms2"
    using handle_tool_calls_prefix [of "ms @ [Obj message]" env "the (tool_calls message)" w1] h
    by simp
  then have "strict_prefix ms ms2" by (auto simp: strict_prefix_def prefix_def)
  with eq show ?thesis by simp
qed

lemma loop_body_Inl:
  assumes "loop_body env (ms, n, w) = Inl out"
  shows "prefix ms (final_messages out) \<and> router_calls out = Suc n"
proof -
  obtain r w1 where r: "router_create env ms w = (r, w1)" by (cases "router_create env ms w")
  show ?thesis
  proof (cases r)
    case (Inl m)
    with assms r show ?thesis by auto
  next
    case (Inr message)
    obtain x ms2 w2 where h:
      "handle_tool_calls env (the (tool_calls message)) (ms @ [Obj message]) w1 = (x, ms2, w2)"
      by (cases "handle_tool_calls env (the (tool_calls message)) (ms @ [Obj message]) w1")
    have "prefix (ms @ [Obj message]) ms2"
      using handle_tool_calls_prefix [of "ms @ [Obj message]" env "the (tool_calls message)" w1] h
      by simp
    then have "prefix ms ms2" by (rule append_prefixD)
    with assms r Inr h show ?thesis by (auto simp: Let_def split: if_splits option.splits)
  qed
qed

lemma run_steps_Inr:
  "run_steps env k (ms, n, w) = Inr (ms', n', w') \<Longrightarrow>
     prefix ms ms' \<and> length ms + k \<le> length ms' \<and> n' = n + k"
proof (induction k arbitrary: ms n w)
  case 0
  then show ?case by simp
next
  case (Suc k)
  from Suc.prems obtain ms1 n1 w1 where
    b: "loop_body env (ms, n, w) = Inr (ms1, n1, w1)"
    and r: "run_steps env k (ms1, n1, w1) = Inr (ms', n', w')"
    by (cases "loop_body env (ms, n, w)") auto
  from loop_body_Inr [OF b] have s: "strict_prefix ms ms1" "n1 = Suc n" by simp_all
  from s(1) have l: "length ms < length ms1" by (rule prefix_length_less)
  from Suc.IH [OF r] have i: "prefix ms1 ms'" "length ms1 + k \<le> length ms'" "n' = n1 + k"
    by simp_all
  from s(1) i(1) have "prefix ms ms'" by (auto simp: strict_prefix_def)
  with l i s(2) show ?case by simp
qed

lemma run_steps_Inl:
  "run_steps env k (ms, n, w) = Inl out \<Longrightarrow> prefix ms (final_messages out)"
proof (induction k arbitrary: ms n w)
  case 0
  then show ?case by simp
next
  case (Suc k)
  show ?case
  proof (cases "loop_body env (ms, n, w)")
    case (Inl a)
    with Suc.prems have "loop_body env (ms, n, w) = Inl out" by simp
    from loop_body_Inl [OF this] show ?thesis by simp
  next
    case (Inr s1)
    obtain ms1 n1 w1 where s1: "s1 = (ms1, n1, w1)" by (cases s1)
    from Inr s1 have "loop_body env (ms, n, w) = Inr (ms1, n1, w1)" by simp
    from loop_body_Inr [OF this] have "strict_prefix ms ms1" by simp
    moreover from Suc.prems Inr s1 have "prefix ms1 (final_messages out)"
      using Suc.IH by simp
    ultimately show ?thesis by (auto simp: strict_prefix_def)
  qed
qed

lemma ensure_system_prompt_text:
  "ensure_system_prompt [user_message q] = [user_message q, system_prompt]"
  by (simp add: ensure_system_prompt_def user_message_def)

lemma run_steps_answer:
  "run_steps env k (ms, n, w) = Inl out \<Longrightarrow> result out = Inr c \<Longrightarrow>
     \<exists>ms' message. final_messages out = ms' @ [Obj message] \<and> content message = c \<and>
        \<not> truthy (tool_calls message)"
proof (induction k arbitrary: ms n w)
  case 0
  then show ?case by simp
next
  case (Suc k)
  show ?case
  proof (cases "loop_body env (ms, n, w)")
    case (Inl a)
    with Suc.prems have b: "loop_body env (ms, n, w) = Inl out" by simp
    obtain r w1 where r: "router_create env ms w = (r, w1)" by (cases "router_create env ms w")
    show ?thesis
    proof (cases r)
      case (Inl m)
      with b r Suc.prems(2) show ?thesis by auto
    next
      case (Inr message)
      with b r Suc.prems(2) have "final_messages out = ms @ [Obj message] \<and>
          content message = c \<and> \<not> truthy (tool_calls message)"
        by (auto simp: Let_def split: if_splits prod.splits option.splits)
      then show ?thesis by blast
    qed
  next
    case (Inr s1)
    obtain ms1 n1 w1 where s1: "s1 = (ms1, n1, w1)" by (cases s1)
    from Suc.prems(1) Inr s1 have "run_steps env k (ms1, n1, w1) = Inl out" by simp
    from Suc.IH [OF this Suc.prems(2)] show ?thesis .
  qed
qed

lemma demo_answer_run:
  "run_agent (demo_env (const_router (answering a))) (Text q) 0 =
     Some \<lparr>result = Inr (Some a),
           final_messages = [user_message q, system_prompt, Obj (answering a)],
           router_calls = 1, world = 1\<rparr>"
  unfolding run_agent_def
  by (subst run_loop.simps)
     (simp add: ensure_system_prompt_text demo_env_def const_router_def answering_def)

section \<open>The stubs, evaluated\<close>

lemma demo_json_loads_simps:
  "demo_json_loads args_prompt = Inr (PDict [(''prompt'', PStr ''q'')])"
  "demo_json_loads args_prompt_data = Inr (PDict [(''prompt'', PStr ''q''), (''data'', PStr ''d'')])"
  "demo_json_loads args_prompt_number = Inr (PDict [(''prompt'', PInt 7)])"
  "demo_json_loads ''{}'' = Inr (PDict [])"
  "demo_json_loads ''not json'' =
     Inl (JSONDecodeError ''Expecting value: line 1 column 1 (char 0)'')"
  by (simp_all add: demo_json_loads_def args_prompt_def args_prompt_data_def
        args_prompt_number_def quoted_def)

lemma demo_clean_sql: "remove_all ''```'' (remove_all ''```sql'' (strip ''```sql SELECT```'')) = '' SELECT''"
  by (simp add: strip_def is_space_def)

lemma demo_lookup:
  "lookup_sales_data (demo_env r) p w =
     (if w < 2 then (''rows of SELECT'', w + 4)
      else (''Error accessing data: Parser Error: syntax error at end of input'', w + 4))"
  by (simp add: lookup_sales_data_def lookup_sales_data_try_def generate_sql_query_def
        demo_env_def demo_clean_sql)

lemma demo_env_sel:
  "json_loads (demo_env r) = demo_json_loads"
  "router_create (demo_env r) = r"
  "data_analysis_create (demo_env r) = (\<lambda>prompt data w. (Inl ''Connection error.'', Suc w))"
  "chart_configuration_parse (demo_env r) = (\<lambda>data goal w. (Inr (StrObj ''{}''), Suc w))"
  by (simp_all add: demo_env_def)

lemma demo_invoke_lookup:
  "invoke (demo_env r) (request tid ''lookup_sales_data'' args_prompt) w =
     (if w < 2 then (Inr ''rows of SELECT'', w + 4)
      else (Inr ''Error accessing data: Parser Error: syntax error at end of input'', w + 4))"
  by (simp add: invoke_def request_def tool_implementations_def demo_lookup
        demo_json_loads_simps demo_env_sel)

lemma demo_invoke_analyze:
  "invoke (demo_env r) (request tid ''analyze_sales_data'' args_prompt_data) w =
     (Inl (Raised ''Connection error.''), Suc w)"
  by (simp add: invoke_def request_def tool_implementations_def analyze_sales_data_def
        demo_json_loads_simps demo_env_sel)

lemma demo_invoke_unknown:
  "invoke (demo_env r) (request tid ''delete_sales_data'' args_prompt) w =
     (Inl (KeyError ''delete_sales_data''), w)"
  by (simp add: invoke_def request_def tool_implementations_def)

lemma demo_invoke_not_json:
  "invoke (demo_env r) (request tid ''lookup_sales_data'' ''not json'') w =
     (Inl (JSONDecodeError ''Expecting value: line 1 column 1 (char 0)''), w)"
  by (simp add: invoke_def request_def tool_implementations_def demo_json_loads_simps demo_env_sel)

lemma demo_invoke_missing:
  "invoke (demo_env r) (request tid ''lookup_sales_data'' ''{}'') w = (Inl TypeError, w)"
  by (simp add: invoke_def request_def tool_implementations_def demo_json_loads_simps demo_env_sel)

lemma demo_invoke_unexpected:
  "invoke (demo_env r) (request tid ''lookup_sales_data'' args_prompt_data) w = (Inl TypeError, w)"
  by (simp add: invoke_def request_def tool_implementations_def demo_json_loads_simps demo_env_sel)

lemma demo_invoke_number:
  "invoke (demo_env r) (request tid ''lookup_sales_data'' args_prompt_number) 0 =
     (Inr ''rows of SELECT'', 4)"
  by (simp add: invoke_def request_def tool_implementations_def demo_lookup
        demo_json_loads_simps demo_env_sel)

section \<open>A plain answer ends the run\<close>

text \<open>
  Claim C6. When the first response of the engine carries no tool calls (\<^verbatim>\<open>tool_calls\<close>
  is \<^verbatim>\<open>None\<close> or empty), \<^verbatim>\<open>run_agent\<close> returns the \<^verbatim>\<open>content\<close> of that response
  after exactly one router call; the response is the last message of the list.
\<close>

theorem plain_answer_after_one_router_call:
  assumes "router_create env (ensure_system_prompt (as_messages inp)) w = (Inr message, w')"
    and "\<not> truthy (tool_calls message)"
  shows "run_agent env inp w =
           Some \<lparr>result = Inr (content message),
                 final_messages = ensure_system_prompt (as_messages inp) @ [Obj message],
                 router_calls = 1, world = w'\<rparr>"
  unfolding run_agent_def using assms by (subst run_loop.simps) (simp add: Let_def)

theorem plain_answer_after_one_router_call_witness:
  "router_create (demo_env (const_router (answering ''42'')))
       (ensure_system_prompt (as_messages (Text ''hi''))) 0 = (Inr (answering ''42''), 1) \<and>
   \<not> truthy (tool_calls (answering ''42'')) \<and>
   run_agent (demo_env (const_router (answering ''42''))) (Text ''hi'') 0 =
     Some \<lparr>result = Inr (Some ''42''),
           final_messages = [user_message ''hi'', system_prompt, Obj (answering ''42'')],
           router_calls = 1, world = 1\<rparr>"
proof -
  have r: "router_create (demo_env (const_router (answering ''42'')))
       (ensure_system_prompt (as_messages (Text ''hi''))) 0 = (Inr (answering ''42''), 1)"
    by (simp add: demo_env_def const_router_def)
  have t: "\<not> truthy (tool_calls (answering ''42''))" by (simp add: answering_def)
  have e: "ensure_system_prompt [user_message ''hi''] = [user_message ''hi'', system_prompt]"
    by (rule ensure_system_prompt_text)
  have c: "content (answering ''42'') = Some ''42''" by (simp add: answering_def)
  show ?thesis
    using r t plain_answer_after_one_router_call [OF r t] by (simp add: e c)
qed

section \<open>The message list only grows\<close>

lemma ensure_system_prompt_prefix: "prefix ms (ensure_system_prompt ms)"
  by (simp add: ensure_system_prompt_def)

lemma run_steps_Inl_later:
  "run_steps env k s = Inl out \<Longrightarrow> run_steps env (k + i) s = Inl out"
  by (simp add: run_steps_add)

lemma request_sel [simp]:
  "call_id (request t n a) = t" "name (request t n a) = n" "arguments (request t n a) = a"
  by (simp_all add: request_def)

lemma is_obj_simps [simp]:
  "\<not> is_obj (user_message q)" "\<not> is_obj system_prompt" "\<not> is_obj (tool_message r t)"
  by (simp_all add: user_message_def system_prompt_def tool_message_def)

lemma demo_script_pass1:
  "loop_body (demo_env (script_router
       [requesting [request ''call_1'' ''lookup_sales_data'' args_prompt], answering ''done'']))
     ([user_message ''hi'', system_prompt], 0, 0) =
   Inr ([user_message ''hi'', system_prompt,
         Obj (requesting [request ''call_1'' ''lookup_sales_data'' args_prompt]),
         tool_message ''rows of SELECT'' ''call_1''], 1, 5)"
  by (simp add: demo_env_sel script_router_def requesting_def demo_invoke_lookup)

lemma demo_script_pass2:
  "loop_body (demo_env (script_router
       [requesting [request ''call_1'' ''lookup_sales_data'' args_prompt], answering ''done'']))
     ([user_message ''hi'', system_prompt,
         Obj (requesting [request ''call_1'' ''lookup_sales_data'' args_prompt]),
         tool_message ''rows of SELECT'' ''call_1''], 1, 5) =
   Inl \<lparr>result = Inr (Some ''done''),
        final_messages = [user_message ''hi'', system_prompt,
         Obj (requesting [request ''call_1'' ''lookup_sales_data'' args_prompt]),
         tool_message ''rows of SELECT'' ''call_1'', Obj (answering ''done'')],
        router_calls = 2, world = 6\<rparr>"
  by (simp add: demo_env_sel script_router_def answering_def)

lemma demo_script_run:
  "run_loop (demo_env (script_router
       [requesting [request ''call_1'' ''lookup_sales_data'' args_prompt], answering ''done'']))
     ([user_message ''hi'', system_prompt], 0, 0) =
   Some \<lparr>result = Inr (Some ''done''),
        final_messages = [user_message ''hi'', system_prompt,
         Obj (requesting [request ''call_1'' ''lookup_sales_data'' args_prompt]),
         tool_message ''rows of SELECT'' ''call_1'', Obj (answering ''done'')],
        router_calls = 2, world = 6\<rparr>"
  by (subst run_loop.simps, simp only: demo_script_pass1 sum.case,
      subst run_loop.simps, simp only: demo_script_pass2 sum.case)

text \<open>
  Claim C5. The list of messages is append-only. The system-prompt check and
  \<^verbatim>\<open>handle_tool_calls\<close> (also when it raises) leave the list they were given as a prefix
  of the list they produce. Of two states of the loop of \<^verbatim>\<open>run_agent\<close>, after \<open>j\<close> and
  after \<open>k \<ge> j\<close> passes, the earlier list is a prefix of the later one, which is longer
  by at least \<open>k - j\<close> messages; and the list of every state of a run that ends is a prefix
  of the list at the end. So no message is removed, reordered or changed.
\<close>

theorem conversation_is_append_only:
  "prefix ms (ensure_system_prompt ms) \<and>
   prefix ms (fst (snd (handle_tool_calls env tcs ms w))) \<and>
   (j \<le> k \<longrightarrow> run_steps env j s = Inr (ms1, n1, w1) \<longrightarrow>
      run_steps env k s = Inr (ms2, n2, w2) \<longrightarrow>
        prefix ms1 ms2 \<and> length ms1 + (k - j) \<le> length ms2) \<and>
   (run_steps env j s = Inr (ms1, n1, w1) \<longrightarrow> run_loop env s = Some out \<longrightarrow>
      prefix ms1 (final_messages out))"
proof (intro conjI impI)
  show "prefix ms (ensure_system_prompt ms)" by (rule ensure_system_prompt_prefix)
  show "prefix ms (fst (snd (handle_tool_calls env tcs ms w)))" by (rule handle_tool_calls_prefix)
next
  assume jk: "j \<le> k" and a: "run_steps env j s = Inr (ms1, n1, w1)"
    and b: "run_steps env k s = Inr (ms2, n2, w2)"
  from jk have "run_steps env k s = run_steps env (j + (k - j)) s" by simp
  also have "\<dots> = run_steps env (k - j) (ms1, n1, w1)" using a by (simp add: run_steps_add)
  finally have "run_steps env (k - j) (ms1, n1, w1) = Inr (ms2, n2, w2)" using b by simp
  from run_steps_Inr [OF this]
  show "prefix ms1 ms2" and "length ms1 + (k - j) \<le> length ms2" by simp_all
next
  assume a: "run_steps env j s = Inr (ms1, n1, w1)" and r: "run_loop env s = Some out"
  from r obtain k where k: "run_steps env k s = Inl out" using run_loop_run_steps by blast
  have "j < k"
  proof (rule ccontr)
    assume "\<not> j < k"
    then have "j = k + (j - k)" by simp
    then have "run_steps env j s = Inl out" using run_steps_Inl_later [OF k] by metis
    with a show False by simp
  qed
  then have "run_steps env k s = run_steps env (j + (k - j)) s" by simp
  also have "\<dots> = run_steps env (k - j) (ms1, n1, w1)" using a by (simp add: run_steps_add)
  finally have "run_steps env (k - j) (ms1, n1, w1) = Inl out" using k by simp
  from run_steps_Inl [OF this] show "prefix ms1 (final_messages out)" .
qed

theorem conversation_is_append_only_witness:
  "(0::nat) \<le> 1 \<and>
   run_steps (demo_env (script_router
       [requesting [request ''call_1'' ''lookup_sales_data'' args_prompt], answering ''done'']))
     0 ([user_message ''hi'', system_prompt], 0, 0) =
     Inr ([user_message ''hi'', system_prompt], 0, 0) \<and>
   run_steps (demo_env (script_router
       [requesting [request ''call_1'' ''lookup_sales_data'' args_prompt], answering ''done'']))
     1 ([user_message ''hi'', system_prompt], 0, 0) =
     Inr ([user_message ''hi'', system_prompt,
         Obj (requesting [request ''call_1'' ''lookup_sales_data'' args_prompt]),
         tool_message ''rows of SELECT'' ''call_1''], 1, 5) \<and>
   prefix [user_message ''hi'', system_prompt]
     [user_message ''hi'', system_prompt,
         Obj (requesting [request ''call_1'' ''lookup_sales_data'' args_prompt]),
         tool_message ''rows of SELECT'' ''call_1''] \<and>
   run_loop (demo_env (script_router
       [requesting [request ''call_1'' ''lookup_sales_data'' args_prompt], answering ''done'']))
     ([user_message ''hi'', system_prompt], 0, 0) =
   Some \<lparr>result = Inr (Some ''done''),
        final_messages = [user_message ''hi'', system_prompt,
         Obj (requesting [request ''call_1'' ''lookup_sales_data'' args_prompt]),
         tool_message ''rows of SELECT'' ''call_1'', Obj (answering ''done'')],
        router_calls = 2, world = 6\<rparr> \<and>
   prefix [user_message ''hi'', system_prompt]
     (final_messages \<lparr>result = Inr (Some ''done''),
        final_messages = [user_message ''hi'', system_prompt,
         Obj (requesting [request ''call_1'' ''lookup_sales_data'' args_prompt]),
         tool_message ''rows of SELECT'' ''call_1'', Obj (answering ''done'')],
        router_calls = 2, world = (6::nat)\<rparr>)"
proof -
  let ?env = "demo_env (script_router
       [requesting [request ''call_1'' ''lookup_sales_data'' args_prompt], answering ''done''])"
  let ?ms1 = "[user_message ''hi'', system_prompt]"
  let ?ms2 = "[user_message ''hi'', system_prompt,
         Obj (requesting [request ''call_1'' ''lookup_sales_data'' args_prompt]),
         tool_message ''rows of SELECT'' ''call_1'']"
  let ?out = "\<lparr>result = Inr (Some ''done''),
        final_messages = [user_message ''hi'', system_prompt,
         Obj (requesting [request ''call_1'' ''lookup_sales_data'' args_prompt]),
         tool_message ''rows of SELECT'' ''call_1'', Obj (answering ''done'')],
        router_calls = 2, world = (6::nat)\<rparr>"
  have le: "(0::nat) \<le> 1" by simp
  have a: "run_steps ?env 0 (?ms1, 0, 0) = Inr (?ms1, 0, 0)" by simp
  have b: "run_steps ?env 1 (?ms1, 0, 0) = Inr (?ms2, 1, 5)"
    by (simp only: One_nat_def run_steps.simps demo_script_pass1 [unfolded One_nat_def] sum.case)
  have r: "run_loop ?env (?ms1, 0, 0) = Some ?out" by (rule demo_script_run)
  note t = conversation_is_append_only
    [of ?ms1 ?env "[]" 0 0 1 "(?ms1, 0, 0)" ?ms1 0 0 ?ms2 1 5 ?out]
  from t le a b have p: "prefix ?ms1 ?ms2" by blast
  from t a r have q: "prefix ?ms1 (final_messages ?out)" by blast
  from le a b p r q show ?thesis by blast
qed

section \<open>An engine that never converges\<close>

lemma always_requesting_steps:
  assumes req: "\<And>messages w. \<exists>message w'.
      router_create env messages w = (Inr message, w') \<and> truthy (tool_calls message) \<and>
      fst (handle_tool_calls env (the (tool_calls message)) (messages @ [Obj message]) w') = None"
  shows "\<exists>ms' w'. run_steps env k (ms, n, w) = Inr (ms', n + k, w')"
proof (induction k arbitrary: ms n w)
  case 0
  show ?case by simp
next
  case (Suc k)
  from req [of ms w] obtain message w1 where
    r: "router_create env ms w = (Inr message, w1)" and t: "truthy (tool_calls message)"
    and h: "fst (handle_tool_calls env (the (tool_calls message)) (ms @ [Obj message]) w1) = None"
    by blast
  obtain x ms2 w2 where
    c: "handle_tool_calls env (the (tool_calls message)) (ms @ [Obj message]) w1 = (x, ms2, w2)"
    by (cases "handle_tool_calls env (the (tool_calls message)) (ms @ [Obj message]) w1")
  with h have "x = None" by simp
  with r t c have b: "loop_body env (ms, n, w) = Inr (ms2, Suc n, w2)" by (simp add: Let_def)
  from Suc.IH [of ms2 "Suc n" w2] obtain ms' w' where
    "run_steps env k (ms2, Suc n, w2) = Inr (ms', Suc n + k, w')" by blast
  with b have "run_steps env (Suc k) (ms, n, w) = Inr (ms', n + Suc k, w')" by simp
  then show ?case by blast
qed

lemma always_requesting_diverges:
  assumes "\<And>messages w. \<exists>message w'.
      router_create env messages w = (Inr message, w') \<and> truthy (tool_calls message) \<and>
      fst (handle_tool_calls env (the (tool_calls message)) (messages @ [Obj message]) w') = None"
  shows "run_loop env (ms, n, w) = None"
proof -
  have "\<forall>k. \<exists>s'. run_steps env k (ms, n, w) = Inr s'"
  proof
    fix k
    from always_requesting_steps [OF assms, of k ms n w]
    show "\<exists>s'. run_steps env k (ms, n, w) = Inr s'" by blast
  qed
  then show ?thesis by (simp add: run_loop_None_iff)
qed

lemma demo_always_requesting:
  "\<exists>message w'.
      router_create (demo_env (const_router
         (requesting [request ''call_1'' ''lookup_sales_data'' args_prompt]))) messages w =
        (Inr message, w') \<and> truthy (tool_calls message) \<and>
      fst (handle_tool_calls (demo_env (const_router
         (requesting [request ''call_1'' ''lookup_sales_data'' args_prompt])))
         (the (tool_calls message)) (messages @ [Obj message]) w') = None"
  by (simp add: demo_env_sel const_router_def requesting_def demo_invoke_lookup)

lemma loop_body_Inr_iff:
  "(\<exists>s'. loop_body env (ms, n, w) = Inr s') \<longleftrightarrow>
     (\<exists>message w'. router_create env ms w = (Inr message, w') \<and> truthy (tool_calls message) \<and>
        fst (handle_tool_calls env (the (tool_calls message)) (ms @ [Obj message]) w') = None)"
  by (auto simp: Let_def split: prod.splits sum.splits if_splits option.splits)

lemma run_steps_Suc_end:
  "run_steps env (Suc k) s =
     (case run_steps env k s of Inl out \<Rightarrow> Inl out | Inr s' \<Rightarrow> loop_body env s')"
proof -
  have "run_steps env (k + 1) s =
     (case run_steps env k s of Inl out \<Rightarrow> Inl out | Inr s' \<Rightarrow> run_steps env 1 s')"
    by (rule run_steps_add)
  then show ?thesis by (simp split: sum.splits)
qed

lemma requesting_run_steps:
  assumes "\<And>k ms n w'. run_steps env k s = Inr (ms, n, w') \<Longrightarrow>
      \<exists>message w''. router_create env ms w' = (Inr message, w'') \<and> truthy (tool_calls message) \<and>
        fst (handle_tool_calls env (the (tool_calls message)) (ms @ [Obj message]) w'') = None"
  shows "\<exists>s'. run_steps env k s = Inr s'"
proof (induction k)
  case 0
  show ?case by (rule exI [of _ s]) simp
next
  case (Suc k)
  then obtain s1 where "run_steps env k s = Inr s1" by blast
  moreover obtain ms n w' where "s1 = (ms, n, w')" by (cases s1)
  ultimately have r: "run_steps env k s = Inr (ms, n, w')" by simp
  from assms [OF r] have "\<exists>s'. loop_body env (ms, n, w') = Inr s'"
    by (simp only: loop_body_Inr_iff)
  with r show ?case by (simp only: run_steps_Suc_end sum.case)
qed

lemma run_loop_None_requesting:
  "run_loop env s = None \<longleftrightarrow>
     (\<forall>k ms n w'. run_steps env k s = Inr (ms, n, w') \<longrightarrow>
        (\<exists>message w''. router_create env ms w' = (Inr message, w'') \<and>
           truthy (tool_calls message) \<and>
           fst (handle_tool_calls env (the (tool_calls message)) (ms @ [Obj message]) w'') = None))"
proof
  assume n: "run_loop env s = None"
  show "\<forall>k ms n w'. run_steps env k s = Inr (ms, n, w') \<longrightarrow>
        (\<exists>message w''. router_create env ms w' = (Inr message, w'') \<and>
           truthy (tool_calls message) \<and>
           fst (handle_tool_calls env (the (tool_calls message)) (ms @ [Obj message]) w'') = None)"
  proof (intro allI impI)
    fix k ms n' w'
    assume r: "run_steps env k s = Inr (ms, n', w')"
    from n obtain s2 where "run_steps env (Suc k) s = Inr s2"
      using run_loop_None_iff [of env s] by blast
    with r have "loop_body env (ms, n', w') = Inr s2" by (simp only: run_steps_Suc_end sum.case)
    then have "\<exists>s'. loop_body env (ms, n', w') = Inr s'" by blast
    then show "\<exists>message w''. router_create env ms w' = (Inr message, w'') \<and>
           truthy (tool_calls message) \<and>
           fst (handle_tool_calls env (the (tool_calls message)) (ms @ [Obj message]) w'') = None"
      by (simp only: loop_body_Inr_iff)
  qed
next
  assume h: "\<forall>k ms n w'. run_steps env k s = Inr (ms, n, w') \<longrightarrow>
        (\<exists>message w''. router_create env ms w' = (Inr message, w'') \<and>
           truthy (tool_calls message) \<and>
           fst (handle_tool_calls env (the (tool_calls message)) (ms @ [Obj message]) w'') = None)"
  have "\<forall>k. \<exists>s'. run_steps env k s = Inr s'"
  proof
    fix k
    show "\<exists>s'. run_steps env k s = Inr s'"
      by (rule requesting_run_steps) (use h in blast)
  qed
  then show "run_loop env s = None" using run_loop_None_iff [of env s] by blast
qed

text \<open>
  Claim C1 says that a run in which every response requests a tool fails with
  NonConvergence after a configured number of passes. \<^verbatim>\<open>run_agent\<close> has no such
  number and no such failure: its loop is \<^verbatim>\<open>while True\<close>, left only by the
  \<^verbatim>\<open>return\<close> of a response without tool calls or by an exception. With the stub
  engine that requests \<^verbatim>\<open>lookup_sales_data\<close> on every call the run never ends.
\<close>

theorem never_converging_run_counterexample:
  "run_agent (demo_env (const_router
         (requesting [request ''call_1'' ''lookup_sales_data'' args_prompt])))
      (Text ''Show me all the sales'') 0 = None"
  unfolding run_agent_def by (rule always_requesting_diverges [OF demo_always_requesting])

text \<open>
  Claim C1, amended. \<^verbatim>\<open>run_agent\<close> never returns and never fails exactly when, in
  every state its loop reaches, the engine answers the list of that state with a request
  for tools and the dispatch of these requests returns. In such an interaction, for every
  \<open>k\<close>, after \<open>k\<close> passes of the loop it has made \<open>k\<close> router calls and is still running.
\<close>

theorem run_agent_has_no_iteration_cap:
  "(run_agent env inp w = None \<longleftrightarrow>
     (\<forall>k ms n w'.
        run_steps env k (ensure_system_prompt (as_messages inp), 0, w) = Inr (ms, n, w') \<longrightarrow>
        (\<exists>message w''. router_create env ms w' = (Inr message, w'') \<and>
           truthy (tool_calls message) \<and>
           fst (handle_tool_calls env (the (tool_calls message)) (ms @ [Obj message]) w'') =
             None))) \<and>
   (run_agent env inp w = None \<longrightarrow>
     (\<forall>k. \<exists>ms' w'.
        run_steps env k (ensure_system_prompt (as_messages inp), 0, w) = Inr (ms', k, w')))"
proof
  show "run_agent env inp w = None \<longleftrightarrow>
     (\<forall>k ms n w'.
        run_steps env k (ensure_system_prompt (as_messages inp), 0, w) = Inr (ms, n, w') \<longrightarrow>
        (\<exists>message w''. router_create env ms w' = (Inr message, w'') \<and>
           truthy (tool_calls message) \<and>
           fst (handle_tool_calls env (the (tool_calls message)) (ms @ [Obj message]) w'') =
             None))"
    unfolding run_agent_def by (rule run_loop_None_requesting)
  show "run_agent env inp w = None \<longrightarrow>
     (\<forall>k. \<exists>ms' w'.
        run_steps env k (ensure_system_prompt (as_messages inp), 0, w) = Inr (ms', k, w'))"
  proof (intro impI allI)
    fix k
    assume "run_agent env inp w = None"
    then obtain s' where s: "run_steps env k (ensure_system_prompt (as_messages inp), 0, w) = Inr s'"
      unfolding run_agent_def using run_loop_None_iff by blast
    obtain ms' n' w' where "s' = (ms', n', w')" by (cases s')
    with s have r: "run_steps env k (ensure_system_prompt (as_messages inp), 0, w) = Inr (ms', n', w')"
      by simp
    from run_steps_Inr [OF r] have "n' = k" by simp
    with r show "\<exists>ms' w'.
        run_steps env k (ensure_system_prompt (as_messages inp), 0, w) = Inr (ms', k, w')"
      by blast
  qed
qed

theorem run_agent_has_no_iteration_cap_witness:
  "(\<forall>ms w'. \<exists>message w''.
      router_create (demo_env (const_router
        (requesting [request ''call_1'' ''lookup_sales_data'' args_prompt]))) ms w' =
        (Inr message, w'') \<and> truthy (tool_calls message) \<and>
      fst (handle_tool_calls (demo_env (const_router
        (requesting [request ''call_1'' ''lookup_sales_data'' args_prompt])))
        (the (tool_calls message)) (ms @ [Obj message]) w'') = None) \<and>
   run_agent (demo_env (const_router
         (requesting [request ''call_1'' ''lookup_sales_data'' args_prompt])))
      (Messages [user_message ''hi'']) 0 = None \<and>
   (\<exists>ms' w'. run_steps (demo_env (const_router
         (requesting [request ''call_1'' ''lookup_sales_data'' args_prompt]))) 3
        (ensure_system_prompt (as_messages (Messages [user_message ''hi''])), 0, 0) =
        Inr (ms', 3, w'))"
proof -
  let ?env = "demo_env (const_router
         (requesting [request ''call_1'' ''lookup_sales_data'' args_prompt]))"
  let ?s = "(ensure_system_prompt (as_messages (Messages [user_message ''hi''])), 0::nat, 0::nat)"
  have h: "\<forall>k ms n w'. run_steps ?env k ?s = Inr (ms, n, w') \<longrightarrow>
      (\<exists>message w''. router_create ?env ms w' = (Inr message, w'') \<and>
         truthy (tool_calls message) \<and>
         fst (handle_tool_calls ?env (the (tool_calls message)) (ms @ [Obj message]) w'') = None)"
    using demo_always_requesting by blast
  note t = run_agent_has_no_iteration_cap [of ?env "Messages [user_message ''hi'']" 0]
  from t h have n: "run_agent ?env (Messages [user_message ''hi'']) 0 = None" by blast
  with t have "\<exists>ms' w'. run_steps ?env 3 ?s = Inr (ms', 3, w')" by blast
  with n demo_always_requesting show ?thesis by blast
qed

section \<open>Exceptions of a dispatch leave the loop\<close>

lemma handle_tool_calls_raises:
  assumes "handle_tool_calls env tcs1 ms w = (None, ms1, w1)"
    and "invoke env tc w1 = (Inl e, w2)"
  shows "handle_tool_calls env (tcs1 @ tc # tcs2) ms w = (Some e, ms1, w2)"
  using assms by (simp add: handle_tool_calls_append)

lemma loop_body_raises:
  assumes "router_create env ms w0 = (Inr message, w)"
    and "tool_calls message = Some tcs"
    and "handle_tool_calls env tcs (ms @ [Obj message]) w = (Some e, ms1, w1)"
  shows "run_loop env (ms, n, w0) =
           Some \<lparr>result = Inl e, final_messages = ms1, router_calls = Suc n, world = w1\<rparr>"
proof -
  from assms(3) have "tcs \<noteq> []" by (cases tcs) auto
  with assms have "loop_body env (ms, n, w0) =
      Inl \<lparr>result = Inl e, final_messages = ms1, router_calls = Suc n, world = w1\<rparr>"
    by (simp add: Let_def)
  then show ?thesis by (subst run_loop.simps) simp
qed

lemma invoke_unknown:
  "tool_implementations (name tc) = None \<Longrightarrow> invoke env tc w = (Inl (KeyError (name tc)), w)"
  by (simp add: invoke_def)

lemma demo_tool_implementations:
  "tool_implementations ''delete_sales_data'' = None"
  "tool_implementations ''lookup_sales_data'' = Some Lookup_sales_data"
  "tool_implementations ''analyze_sales_data'' = Some Analyze_sales_data"
  "tool_implementations ''generate_visualization'' = Some Generate_visualization"
  by (simp_all add: tool_implementations_def)

lemma demo_run_raises:
  assumes "invoke (demo_env (const_router (requesting [tc]))) tc 1 = (Inl e, w1)"
  shows "run_agent (demo_env (const_router (requesting [tc]))) (Text q) 0 =
     Some \<lparr>result = Inl e,
           final_messages = [user_message q, system_prompt, Obj (requesting [tc])],
           router_calls = 1, world = w1\<rparr>"
proof -
  let ?env = "demo_env (const_router (requesting [tc]))"
  have r: "router_create ?env [user_message q, system_prompt] 0 = (Inr (requesting [tc]), 1)"
    by (simp add: demo_env_sel const_router_def)
  have t: "tool_calls (requesting [tc]) = Some [tc]" by (simp add: requesting_def)
  have h: "handle_tool_calls ?env [tc] ([user_message q, system_prompt] @ [Obj (requesting [tc])]) 1 =
      (Some e, [user_message q, system_prompt] @ [Obj (requesting [tc])], w1)"
    using assms by simp
  from loop_body_raises [OF r t h, of 0] show ?thesis
    by (simp add: run_agent_def ensure_system_prompt_text)
qed

subsection \<open>A name that is not in the registry\<close>

text \<open>
  Claim C2 says that a request for an unknown name gives a failure payload that is
  appended as a tool message, and that the loop goes on. \<^verbatim>\<open>handle_tool_calls\<close>
  reads \<^verbatim>\<open>tool_implementations[tool_call.function.name]\<close> with no handler around
  it: the KeyError leaves \<^verbatim>\<open>handle_tool_calls\<close> and \<^verbatim>\<open>run_agent\<close>. With a stub
  engine that requests \<^verbatim>\<open>delete_sales_data\<close> the run ends after one router call with
  that exception, and the list holds no tool message.
\<close>

theorem unknown_tool_counterexample:
  "run_agent (demo_env (const_router
       (requesting [request ''call_1'' ''delete_sales_data'' args_prompt]))) (Text ''hi'') 0 =
     Some \<lparr>result = Inl (KeyError ''delete_sales_data''),
           final_messages = [user_message ''hi'', system_prompt,
             Obj (requesting [request ''call_1'' ''delete_sales_data'' args_prompt])],
           router_calls = 1, world = 1\<rparr>"
  by (rule demo_run_raises [OF demo_invoke_unknown])

text \<open>
  Claim C2, amended. A request whose name is not in \<^verbatim>\<open>tool_implementations\<close> raises
  KeyError with that name. The requests before it in the batch have been dispatched and
  their tool messages appended; no message is appended for the request itself or for the
  ones after it, and the exception ends \<^verbatim>\<open>run_agent\<close>.
\<close>

theorem unknown_tool_raises_KeyError:
  assumes "tool_implementations (name tc) = None"
  shows "invoke env tc w1 = (Inl (KeyError (name tc)), w1) \<and>
         (handle_tool_calls env tcs1 ms w = (None, ms1, w1) \<longrightarrow>
            handle_tool_calls env (tcs1 @ tc # tcs2) ms w = (Some (KeyError (name tc)), ms1, w1)) \<and>
         (router_create env ms0 w0 = (Inr message, w) \<longrightarrow>
          tool_calls message = Some (tcs1 @ tc # tcs2) \<longrightarrow>
          handle_tool_calls env tcs1 (ms0 @ [Obj message]) w = (None, ms1, w1) \<longrightarrow>
            run_loop env (ms0, n, w0) =
              Some \<lparr>result = Inl (KeyError (name tc)), final_messages = ms1,
                    router_calls = Suc n, world = w1\<rparr>)"
proof (intro conjI impI)
  show i: "invoke env tc w1 = (Inl (KeyError (name tc)), w1)"
    by (rule invoke_unknown [OF assms])
  show "handle_tool_calls env (tcs1 @ tc # tcs2) ms w = (Some (KeyError (name tc)), ms1, w1)"
    if "handle_tool_calls env tcs1 ms w = (None, ms1, w1)"
    by (rule handle_tool_calls_raises [OF that i])
  show "run_loop env (ms0, n, w0) =
              Some \<lparr>result = Inl (KeyError (name tc)), final_messages = ms1,
                    router_calls = Suc n, world = w1\<rparr>"
    if r: "router_create env ms0 w0 = (Inr message, w)"
      and t: "tool_calls message = Some (tcs1 @ tc # tcs2)"
      and h: "handle_tool_calls env tcs1 (ms0 @ [Obj message]) w = (None, ms1, w1)"
    by (rule loop_body_raises [OF r t handle_tool_calls_raises [OF h i]])
qed

theorem unknown_tool_raises_KeyError_witness:
  "tool_implementations (name (request ''call_2'' ''delete_sales_data'' args_prompt)) = None \<and>
   handle_tool_calls (demo_env (const_router (answering ''done'')))
       [request ''call_1'' ''lookup_sales_data'' args_prompt] [user_message ''hi''] 0 =
     (None, [user_message ''hi'', tool_message ''rows of SELECT'' ''call_1''], 4) \<and>
   handle_tool_calls (demo_env (const_router (answering ''done'')))
       ([request ''call_1'' ''lookup_sales_data'' args_prompt] @
        request ''call_2'' ''delete_sales_data'' args_prompt #
        [request ''call_3'' ''lookup_sales_data'' args_prompt]) [user_message ''hi''] 0 =
     (Some (KeyError ''delete_sales_data''),
      [user_message ''hi'', tool_message ''rows of SELECT'' ''call_1''], 4)"
proof -
  let ?env = "demo_env (const_router (answering ''done''))"
  let ?tc = "request ''call_2'' ''delete_sales_data'' args_prompt"
  have u: "tool_implementations (name ?tc) = None" by (simp add: demo_tool_implementations)
  have h: "handle_tool_calls ?env
       [request ''call_1'' ''lookup_sales_data'' args_prompt] [user_message ''hi''] 0 =
     (None, [user_message ''hi'', tool_message ''rows of SELECT'' ''call_1''], 4)"
    by (simp add: demo_invoke_lookup)
  from unknown_tool_raises_KeyError [OF u, of ?env 4
      "[request ''call_1'' ''lookup_sales_data'' args_prompt]" "[user_message ''hi'']" 0
      "[user_message ''hi'', tool_message ''rows of SELECT'' ''call_1'']"
      "[request ''call_3'' ''lookup_sales_data'' args_prompt]"] h
  have "handle_tool_calls ?env
       ([request ''call_1'' ''lookup_sales_data'' args_prompt] @ ?tc #
        [request ''call_3'' ''lookup_sales_data'' args_prompt]) [user_message ''hi''] 0 =
     (Some (KeyError (name ?tc)),
      [user_message ''hi'', tool_message ''rows of SELECT'' ''call_1''], 4)"
    by blast
  with u h show ?thesis by simp
qed

subsection \<open>Arguments that do not decode or do not bind\<close>

lemma bind_kwargs_Inr_iff:
  "(\<exists>kw. bind_kwargs ps v = Inr kw) \<longleftrightarrow>
     (\<exists>kvs. v = PDict kvs \<and> set (map fst kvs) = set ps)"
  by (cases v) (auto simp: list_ex_iff)

lemma bind_kwargs_Inl:
  "bind_kwargs ps v = Inl e \<Longrightarrow> e = TypeError"
  by (cases v) (auto split: if_splits)

lemma bind_kwargs_PDict:
  "set (map fst kvs) = set ps \<Longrightarrow> bind_kwargs ps (PDict kvs) = Inr (\<lambda>p. the (map_of kvs p))"
  by (auto simp: list_ex_iff)

text \<open>
  Claim C3 says that a malformed argument payload, or one that does not match the declared
  schema, is surfaced as an InvalidArguments result and not as a crash.
  \<^verbatim>\<open>handle_tool_calls\<close> calls \<^verbatim>\<open>json.loads\<close> and \<^verbatim>\<open>function(**function_args)\<close>
  with no handler and does not read the schemas of \<^verbatim>\<open>tools\<close>. With a stub engine whose
  request carries the arguments \<^verbatim>\<open>not json\<close> the run ends after one router call with
  the JSONDecodeError, and the list holds no tool message.
\<close>

theorem malformed_arguments_counterexample:
  "run_agent (demo_env (const_router
       (requesting [request ''call_1'' ''lookup_sales_data'' ''not json'']))) (Text ''hi'') 0 =
     Some \<lparr>result = Inl (JSONDecodeError ''Expecting value: line 1 column 1 (char 0)''),
           final_messages = [user_message ''hi'', system_prompt,
             Obj (requesting [request ''call_1'' ''lookup_sales_data'' ''not json''])],
           router_calls = 1, world = 1\<rparr>"
  by (rule demo_run_raises [OF demo_invoke_not_json])

text \<open>
  Claim C3, amended. For a request whose name is in \<^verbatim>\<open>tool_implementations\<close>: when
  \<^verbatim>\<open>json.loads\<close> rejects the payload, the exception it raises (a JSONDecodeError for a
  text that is no JSON; a ValueError or a RecursionError on some other texts) is the
  exception of the invocation; a decoded payload that is not an object whose keys are
  exactly the parameters of the function raises TypeError; an object with exactly these
  keys is passed to the function whatever the types of its values. An exception of the
  invocation leaves \<^verbatim>\<open>handle_tool_calls\<close> with no message appended for the request or
  for the ones after it, and ends \<^verbatim>\<open>run_agent\<close>.
\<close>

theorem invalid_arguments_raise:
  assumes "tool_implementations (name tc) = Some f"
  shows "(json_loads env (arguments tc) = Inl e \<longrightarrow> invoke env tc w1 = (Inl e, w1)) \<and>
         (json_loads env (arguments tc) = Inr v \<longrightarrow>
          \<not> (\<exists>kvs. v = PDict kvs \<and> set (map fst kvs) = set (parameters f)) \<longrightarrow>
            invoke env tc w1 = (Inl TypeError, w1)) \<and>
         (json_loads env (arguments tc) = Inr (PDict kvs) \<longrightarrow>
          set (map fst kvs) = set (parameters f) \<longrightarrow>
            invoke env tc w1 = apply_tool env f (\<lambda>p. the (map_of kvs p)) w1) \<and>
         (invoke env tc w1 = (Inl e, w2) \<longrightarrow>
          handle_tool_calls env tcs1 ms w = (None, ms1, w1) \<longrightarrow>
            handle_tool_calls env (tcs1 @ tc # tcs2) ms w = (Some e, ms1, w2)) \<and>
         (invoke env tc w1 = (Inl e, w2) \<longrightarrow>
          router_create env ms0 w0 = (Inr message, w) \<longrightarrow>
          tool_calls message = Some (tcs1 @ tc # tcs2) \<longrightarrow>
          handle_tool_calls env tcs1 (ms0 @ [Obj message]) w = (None, ms1, w1) \<longrightarrow>
            run_loop env (ms0, n, w0) =
              Some \<lparr>result = Inl e, final_messages = ms1, router_calls = Suc n, world = w2\<rparr>)"
proof (intro conjI impI)
  show "invoke env tc w1 = (Inl e, w1)"
    if "json_loads env (arguments tc) = Inl e"
    using assms that by (simp add: invoke_def)
  show "invoke env tc w1 = (Inl TypeError, w1)"
    if l: "json_loads env (arguments tc) = Inr v"
      and n: "\<not> (\<exists>kvs. v = PDict kvs \<and> set (map fst kvs) = set (parameters f))"
  proof (cases "bind_kwargs (parameters f) v")
    case (Inl e')
    then have "e' = TypeError" by (rule bind_kwargs_Inl)
    with Inl assms l show ?thesis by (simp add: invoke_def)
  next
    case (Inr kw)
    with n show ?thesis using bind_kwargs_Inr_iff [of "parameters f" v] by blast
  qed
  show "invoke env tc w1 = apply_tool env f (\<lambda>p. the (map_of kvs p)) w1"
    if l: "json_loads env (arguments tc) = Inr (PDict kvs)"
      and k: "set (map fst kvs) = set (parameters f)"
  proof -
    from k have "bind_kwargs (parameters f) (PDict kvs) = Inr (\<lambda>p. the (map_of kvs p))"
      by (rule bind_kwargs_PDict)
    with assms l show ?thesis by (simp add: invoke_def)
  qed
  show "handle_tool_calls env (tcs1 @ tc # tcs2) ms w = (Some e, ms1, w2)"
    if i: "invoke env tc w1 = (Inl e, w2)"
      and h: "handle_tool_calls env tcs1 ms w = (None, ms1, w1)"
    by (rule handle_tool_calls_raises [OF h i])
  show "run_loop env (ms0, n, w0) =
          Some \<lparr>result = Inl e, final_messages = ms1, router_calls = Suc n, world = w2\<rparr>"
    if i: "invoke env tc w1 = (Inl e, w2)"
      and r: "router_create env ms0 w0 = (Inr message, w)"
      and t: "tool_calls message = Some (tcs1 @ tc # tcs2)"
      and h: "handle_tool_calls env tcs1 (ms0 @ [Obj message]) w = (None, ms1, w1)"
    by (rule loop_body_raises [OF r t handle_tool_calls_raises [OF h i]])
qed

theorem invalid_arguments_raise_witness:
  "tool_implementations (name (request ''call_1'' ''lookup_sales_data'' ''not json'')) =
     Some Lookup_sales_data \<and>
   json_loads (demo_env (const_router
       (requesting [request ''call_1'' ''lookup_sales_data'' ''not json''])))
       (arguments (request ''call_1'' ''lookup_sales_data'' ''not json'')) =
     Inl (JSONDecodeError ''Expecting value: line 1 column 1 (char 0)'') \<and>
   router_create (demo_env (const_router
       (requesting [request ''call_1'' ''lookup_sales_data'' ''not json''])))
       [user_message ''hi'', system_prompt] 0 =
     (Inr (requesting [request ''call_1'' ''lookup_sales_data'' ''not json'']), 1) \<and>
   run_loop (demo_env (const_router
       (requesting [request ''call_1'' ''lookup_sales_data'' ''not json''])))
       ([user_message ''hi'', system_prompt], 0, 0) =
     Some \<lparr>result = Inl (JSONDecodeError ''Expecting value: line 1 column 1 (char 0)''),
           final_messages = [user_message ''hi'', system_prompt,
             Obj (requesting [request ''call_1'' ''lookup_sales_data'' ''not json''])],
           router_calls = 1, world = 1\<rparr> \<and>
   json_loads (demo_env (const_router (answering ''done'')))
       (arguments (request ''call_1'' ''lookup_sales_data'' ''{}'')) = Inr (PDict []) \<and>
   handle_tool_calls (demo_env (const_router (answering ''done'')))
       [request ''call_1'' ''lookup_sales_data'' ''{}''] [user_message ''hi''] 0 =
     (Some TypeError, [user_message ''hi''], 0) \<and>
   json_loads (demo_env (const_router (answering ''done'')))
       (arguments (request ''call_1'' ''lookup_sales_data'' args_prompt_number)) =
     Inr (PDict [(''prompt'', PInt 7)]) \<and>
   invoke (demo_env (const_router (answering ''done'')))
       (request ''call_1'' ''lookup_sales_data'' args_prompt_number) 0 =
     (Inr ''rows of SELECT'', 4)"
proof -
  let ?env = "demo_env (const_router (answering ''done''))"
  let ?tc = "request ''call_1'' ''lookup_sales_data'' ''not json''"
  let ?renv = "demo_env (const_router (requesting [?tc]))"
  let ?tc2 = "request ''call_1'' ''lookup_sales_data'' ''{}''"
  let ?tc3 = "request ''call_1'' ''lookup_sales_data'' args_prompt_number"
  let ?e = "JSONDecodeError ''Expecting value: line 1 column 1 (char 0)''"
  let ?ms0 = "[user_message ''hi'', system_prompt]"
  have f: "tool_implementations (name ?tc) = Some Lookup_sales_data"
    by (simp add: demo_tool_implementations)
  have l: "json_loads ?renv (arguments ?tc) = Inl ?e"
    by (simp add: demo_env_sel demo_json_loads_simps)
  have r: "router_create ?renv ?ms0 0 = (Inr (requesting [?tc]), 1)"
    by (simp add: demo_env_sel const_router_def)
  have tc: "tool_calls (requesting [?tc]) = Some ([] @ ?tc # [])" by (simp add: requesting_def)
  have h0: "handle_tool_calls ?renv [] (?ms0 @ [Obj (requesting [?tc])]) 1 =
      (None, ?ms0 @ [Obj (requesting [?tc])], 1)"
    by simp
  note t = invalid_arguments_raise [OF f, of ?renv ?e 1 PNone "[]" 1 "[]"
      "?ms0 @ [Obj (requesting [?tc])]" 1 "?ms0 @ [Obj (requesting [?tc])]" "[]" ?ms0 0
      "requesting [?tc]" 0]
  from t l have i: "invoke ?renv ?tc 1 = (Inl ?e, 1)" by blast
  from t i r tc h0 have "run_loop ?renv (?ms0, 0, 0) =
     Some \<lparr>result = Inl ?e, final_messages = ?ms0 @ [Obj (requesting [?tc])],
           router_calls = Suc 0, world = 1\<rparr>"
    by blast
  then have run: "run_loop ?renv (?ms0, 0, 0) =
     Some \<lparr>result = Inl ?e,
           final_messages = [user_message ''hi'', system_prompt, Obj (requesting [?tc])],
           router_calls = 1, world = 1\<rparr>"
    by simp
  have f2: "tool_implementations (name ?tc2) = Some Lookup_sales_data"
    by (simp add: demo_tool_implementations)
  have l2: "json_loads ?env (arguments ?tc2) = Inr (PDict [])"
    by (simp add: demo_env_sel demo_json_loads_simps)
  have n2: "\<not> (\<exists>kvs. PDict [] = PDict kvs \<and> set (map fst kvs) = set (parameters Lookup_sales_data))"
    by auto
  have h2: "handle_tool_calls ?env [] [user_message ''hi''] 0 = (None, [user_message ''hi''], 0)"
    by simp
  note t2 = invalid_arguments_raise [OF f2, of ?env TypeError 0 "PDict []" "[]" 0 "[]"
      "[user_message ''hi'']" 0 "[user_message ''hi'']" "[]"]
  from t2 l2 n2 have "invoke ?env ?tc2 0 = (Inl TypeError, 0)" by blast
  with t2 h2 have "handle_tool_calls ?env ([] @ ?tc2 # []) [user_message ''hi''] 0 =
     (Some TypeError, [user_message ''hi''], 0)"
    by blast
  then have h2': "handle_tool_calls ?env [?tc2] [user_message ''hi''] 0 =
     (Some TypeError, [user_message ''hi''], 0)"
    by (simp only: append.simps)
  have f3: "tool_implementations (name ?tc3) = Some Lookup_sales_data"
    by (simp add: demo_tool_implementations)
  have l3: "json_loads ?env (arguments ?tc3) = Inr (PDict [(''prompt'', PInt 7)])"
    by (simp add: demo_env_sel demo_json_loads_simps)
  have k3: "set (map fst [(''prompt'', PInt 7)]) = set (parameters Lookup_sales_data)"
    by simp
  note t3 = invalid_arguments_raise [OF f3, of ?env TypeError 0 PNone "[(''prompt'', PInt 7)]"]
  from t3 l3 k3 have "invoke ?env ?tc3 0 =
      apply_tool ?env Lookup_sales_data (\<lambda>p. the (map_of [(''prompt'', PInt 7)] p)) 0"
    by blast
  then have i3: "invoke ?env ?tc3 0 = (Inr ''rows of SELECT'', 4)"
    by (simp add: demo_lookup)
  from f l r run l2 h2' l3 i3 show ?thesis by blast
qed

subsection \<open>Failures inside a tool\<close>

lemma lookup_sales_data_catches:
  "lookup_sales_data_try env p w = (Inl m, w') \<Longrightarrow>
     lookup_sales_data env p w = (''Error accessing data: '' @ m, w')"
  by (simp add: lookup_sales_data_def)

lemma lookup_sales_data_read_parquet:
  "read_parquet env w = (Inl m, w') \<Longrightarrow> lookup_sales_data_try env p w = (Inl m, w')"
  by (simp add: lookup_sales_data_try_def)

lemma invoke_lookup:
  assumes "tool_implementations (name tc) = Some Lookup_sales_data"
    and "json_loads env (arguments tc) = Inr (PDict kvs)"
    and "set (map fst kvs) = {''prompt''}"
  shows "invoke env tc w =
           (Inr (fst (lookup_sales_data env (the (map_of kvs ''prompt'')) w)),
            snd (lookup_sales_data env (the (map_of kvs ''prompt'')) w))"
proof -
  from assms(3) have "set (map fst kvs) = set (parameters Lookup_sales_data)" by simp
  then have "bind_kwargs (parameters Lookup_sales_data) (PDict kvs) =
      Inr (\<lambda>p. the (map_of kvs p))"
    by (rule bind_kwargs_PDict)
  with assms(1,2) show ?thesis by (simp add: invoke_def split: prod.splits)
qed

lemma demo_lookup_try_late:
  "lookup_sales_data_try (demo_env r) p 2 =
     (Inl ''Parser Error: syntax error at end of input'', 6)"
  by (simp add: lookup_sales_data_try_def generate_sql_query_def demo_env_def demo_clean_sql)

text \<open>
  Claim C4 says that every failure raised inside a tool is caught and becomes a textual
  failure payload in the list, and never leaves the dispatch as an exception. Only
  \<^verbatim>\<open>lookup_sales_data\<close> has a handler; \<^verbatim>\<open>handle_tool_calls\<close> has none. With a stub
  engine that requests \<^verbatim>\<open>analyze_sales_data\<close> and a client whose analysis call raises,
  the exception leaves \<^verbatim>\<open>run_agent\<close>, and the list holds no tool message.
\<close>

theorem analysis_failure_counterexample:
  "run_agent (demo_env (const_router
       (requesting [request ''call_1'' ''analyze_sales_data'' args_prompt_data]))) (Text ''hi'') 0 =
     Some \<lparr>result = Inl (Raised ''Connection error.''),
           final_messages = [user_message ''hi'', system_prompt,
             Obj (requesting [request ''call_1'' ''analyze_sales_data'' args_prompt_data])],
           router_calls = 1, world = 2\<rparr>"
  using demo_run_raises [OF demo_invoke_analyze] by simp

text \<open>
  Claim C4, amended. For every invocation of \<^verbatim>\<open>lookup_sales_data\<close> whose arguments
  decode and bind, the invocation returns a text and \<^verbatim>\<open>handle_tool_calls\<close> appends it
  as the tool message of the request: a failure raised inside the body of the function
  (reading the file, for one) is caught there and becomes the text
  \<^verbatim>\<open>Error accessing data: \<close> followed by \<^verbatim>\<open>str(e)\<close>.
\<close>

theorem lookup_failures_become_text:
  assumes "tool_implementations (name tc) = Some Lookup_sales_data"
    and "json_loads env (arguments tc) = Inr (PDict kvs)"
    and "set (map fst kvs) = {''prompt''}"
    and "lookup_sales_data env (the (map_of kvs ''prompt'')) w = (text, w')"
  shows "invoke env tc w = (Inr text, w') \<and>
         handle_tool_calls env [tc] ms w = (None, ms @ [tool_message text (call_id tc)], w') \<and>
         (lookup_sales_data_try env (the (map_of kvs ''prompt'')) w = (Inl m, w'') \<longrightarrow>
            text = ''Error accessing data: '' @ m \<and> w' = w'') \<and>
         (read_parquet env w = (Inl m, w'') \<longrightarrow>
            text = ''Error accessing data: '' @ m \<and> w' = w'')"
proof (intro conjI impI)
  from invoke_lookup [OF assms(1-3), of w] assms(4)
  show i: "invoke env tc w = (Inr text, w')" by simp
  then show "handle_tool_calls env [tc] ms w = (None, ms @ [tool_message text (call_id tc)], w')"
    by simp
  show "text = ''Error accessing data: '' @ m" "w' = w''"
    if "lookup_sales_data_try env (the (map_of kvs ''prompt'')) w = (Inl m, w'')"
    using lookup_sales_data_catches [OF that] assms(4) by simp_all
  show "text = ''Error accessing data: '' @ m" "w' = w''"
    if "read_parquet env w = (Inl m, w'')"
    using lookup_sales_data_catches [OF lookup_sales_data_read_parquet [OF that]] assms(4)
    by simp_all
qed

theorem lookup_failures_become_text_witness:
  "tool_implementations (name (request ''call_1'' ''lookup_sales_data'' args_prompt)) =
     Some Lookup_sales_data \<and>
   json_loads (demo_env (const_router (answering ''done'')))
     (arguments (request ''call_1'' ''lookup_sales_data'' args_prompt)) =
     Inr (PDict [(''prompt'', PStr ''q'')]) \<and>
   set (map fst [(''prompt'', PStr ''q'')]) = {''prompt''} \<and>
   lookup_sales_data_try (demo_env (const_router (answering ''done''))) (PStr ''q'') 2 =
     (Inl ''Parser Error: syntax error at end of input'', 6) \<and>
   handle_tool_calls (demo_env (const_router (answering ''done'')))
     [request ''call_1'' ''lookup_sales_data'' args_prompt] [user_message ''hi''] 2 =
     (None,
      [user_message ''hi'',
       tool_message ''Error accessing data: Parser Error: syntax error at end of input''
         ''call_1''], 6)"
proof -
  let ?env = "demo_env (const_router (answering ''done''))"
  let ?tc = "request ''call_1'' ''lookup_sales_data'' args_prompt"
  let ?text = "''Error accessing data: Parser Error: syntax error at end of input''"
  have f: "tool_implementations (name ?tc) = Some Lookup_sales_data"
    by (simp add: demo_tool_implementations)
  have l: "json_loads ?env (arguments ?tc) = Inr (PDict [(''prompt'', PStr ''q'')])"
    by (simp add: demo_env_sel demo_json_loads_simps)
  have k: "set (map fst [(''prompt'', PStr ''q'')]) = {''prompt''}" by simp
  have d: "lookup_sales_data ?env (the (map_of [(''prompt'', PStr ''q'')] ''prompt'')) 2 =
      (?text, 6)"
    by (simp add: demo_lookup)
  have y: "lookup_sales_data_try ?env (PStr ''q'') 2 =
     (Inl ''Parser Error: syntax error at end of input'', 6)"
    by (rule demo_lookup_try_late)
  from lookup_failures_become_text [OF f l k d, of "[user_message ''hi'']"]
  have "handle_tool_calls ?env [?tc] [user_message ''hi''] 2 =
     (None, [user_message ''hi''] @ [tool_message ?text (call_id ?tc)], 6)"
    by blast
  then have h: "handle_tool_calls ?env [?tc] [user_message ''hi''] 2 =
     (None, [user_message ''hi'', tool_message ?text ''call_1''], 6)"
    by simp
  from f l k y h show ?thesis by blast
qed

section \<open>The system-prompt check\<close>

lemma is_system_system_prompt [simp]: "is_system system_prompt"
  by (simp add: system_prompt_def)

lemma count_system_zero_iff: "count_system ms = 0 \<longleftrightarrow> \<not> list_ex is_system ms"
  by (auto simp: count_system_def list_ex_iff filter_empty_conv)

lemma ensure_system_prompt_idem:
  "ensure_system_prompt (ensure_system_prompt ms) = ensure_system_prompt ms"
  by (simp add: ensure_system_prompt_def list_ex_iff)

lemma ensure_system_prompt_funpow:
  "(ensure_system_prompt ^^ Suc n) ms = ensure_system_prompt ms"
proof (induction n)
  case 0
  show ?case by simp
next
  case (Suc n)
  have "(ensure_system_prompt ^^ Suc (Suc n)) ms =
      ensure_system_prompt ((ensure_system_prompt ^^ Suc n) ms)" by simp
  also have "\<dots> = ensure_system_prompt (ensure_system_prompt ms)" by (simp only: Suc.IH)
  also have "\<dots> = ensure_system_prompt ms" by (rule ensure_system_prompt_idem)
  finally show ?case .
qed

lemma count_system_ensure:
  "count_system (ensure_system_prompt ms) = max 1 (count_system ms)"
proof (cases "list_ex is_system ms")
  case True
  then have "count_system ms \<noteq> 0" by (simp add: count_system_zero_iff)
  with True show ?thesis by (simp add: ensure_system_prompt_def max_def)
next
  case False
  then have "count_system ms = 0" by (simp add: count_system_zero_iff)
  with False show ?thesis by (simp add: ensure_system_prompt_def count_system_def)
qed

text \<open>
  Claim C8 says that for every list of messages the system-prompt check, applied more than
  once, gives a list with exactly one system message. The check appends the prompt when
  the list holds no system message and changes nothing otherwise: a list that the caller
  built with two system messages still holds two.
\<close>

theorem two_system_messages_counterexample:
  "count_system
     (ensure_system_prompt (ensure_system_prompt
        [system_message ''Answer in French.'', system_message ''Be brief.'',
         user_message ''hi''])) = 2"
  by (simp add: ensure_system_prompt_def count_system_def system_message_def user_message_def)

text \<open>
  Claim C8, amended. The system-prompt check is idempotent: applied \<open>n \<ge> 1\<close> times it
  gives the list that one application gives. It appends the system prompt when the list
  holds no system message and changes nothing otherwise, so a list that held \<open>c\<close> system
  messages holds \<open>max 1 c\<close> afterwards: exactly one when the list held at most one.
\<close>

theorem ensure_system_prompt_idempotent:
  "(ensure_system_prompt ^^ Suc n) ms = ensure_system_prompt ms \<and>
   ensure_system_prompt ms = (if count_system ms = 0 then ms @ [system_prompt] else ms) \<and>
   count_system (ensure_system_prompt ms) = max 1 (count_system ms) \<and>
   (count_system ms \<le> 1 \<longrightarrow> count_system ((ensure_system_prompt ^^ Suc n) ms) = 1)"
proof (intro conjI impI)
  show f: "(ensure_system_prompt ^^ Suc n) ms = ensure_system_prompt ms"
    by (rule ensure_system_prompt_funpow)
  show "ensure_system_prompt ms = (if count_system ms = 0 then ms @ [system_prompt] else ms)"
    by (simp add: ensure_system_prompt_def count_system_zero_iff)
  show c: "count_system (ensure_system_prompt ms) = max 1 (count_system ms)"
    by (rule count_system_ensure)
  show "count_system ((ensure_system_prompt ^^ Suc n) ms) = 1" if "count_system ms \<le> 1"
    unfolding f c using that by simp
qed

theorem ensure_system_prompt_idempotent_witness:
  "count_system [user_message ''hi''] \<le> 1 \<and>
   (ensure_system_prompt ^^ Suc 2) [user_message ''hi''] = [user_message ''hi'', system_prompt] \<and>
   count_system ((ensure_system_prompt ^^ Suc 2) [user_message ''hi'']) = 1"
proof -
  have c: "count_system [user_message ''hi''] \<le> 1" by (simp add: count_system_def)
  note t = ensure_system_prompt_idempotent [of 2 "[user_message ''hi'']"]
  from t have "(ensure_system_prompt ^^ Suc 2) [user_message ''hi''] =
      ensure_system_prompt [user_message ''hi'']" by blast
  then have a: "(ensure_system_prompt ^^ Suc 2) [user_message ''hi''] =
      [user_message ''hi'', system_prompt]"
    by (simp only: ensure_system_prompt_text)
  from t c have "count_system ((ensure_system_prompt ^^ Suc 2) [user_message ''hi'']) = 1"
    by blast
  with c a show ?thesis by blast
qed

section \<open>Requests are dispatched in order\<close>

lemma handle_tool_calls_trace:
  "handle_tool_calls env tcs ms w = (x, ms', w') \<Longrightarrow>
   \<exists>rs ws. length ws = Suc (length rs) \<and> length rs \<le> length tcs \<and> ws ! 0 = w \<and>
     (\<forall>i < length rs. invoke env (tcs ! i) (ws ! i) = (Inr (rs ! i), ws ! Suc i)) \<and>
     ms' = ms @ map2 (\<lambda>r tc. tool_message r (call_id tc)) rs tcs \<and>
     (case x of
        None \<Rightarrow> length rs = length tcs \<and> w' = ws ! length rs
      | Some e \<Rightarrow> length rs < length tcs \<and>
          invoke env (tcs ! length rs) (ws ! length rs) = (Inl e, w'))"
proof (induction tcs arbitrary: ms w)
  case Nil
  then have "x = None" "ms' = ms" "w' = w" by simp_all
  then show ?case by (intro exI [of _ "[]"] exI [of _ "[w]"]) simp
next
  case (Cons tc tcs)
  obtain r w1 where i: "invoke env tc w = (r, w1)" by (cases "invoke env tc w")
  show ?case
  proof (cases r)
    case (Inl e)
    with Cons.prems i have "x = Some e" "ms' = ms" "w' = w1" by simp_all
    with i Inl show ?thesis by (intro exI [of _ "[]"] exI [of _ "[w]"]) simp
  next
    case (Inr res)
    with Cons.prems i have
      "handle_tool_calls env tcs (ms @ [tool_message res (call_id tc)]) w1 = (x, ms', w')"
      by simp
    from Cons.IH [OF this] obtain rs ws where
      l: "length ws = Suc (length rs)" and le: "length rs \<le> length tcs" and z: "ws ! 0 = w1"
      and inv: "\<forall>i < length rs. invoke env (tcs ! i) (ws ! i) = (Inr (rs ! i), ws ! Suc i)"
      and m: "ms' = (ms @ [tool_message res (call_id tc)]) @
                map2 (\<lambda>r tc. tool_message r (call_id tc)) rs tcs"
      and c: "case x of
          None \<Rightarrow> length rs = length tcs \<and> w' = ws ! length rs
        | Some e \<Rightarrow> length rs < length tcs \<and>
            invoke env (tcs ! length rs) (ws ! length rs) = (Inl e, w')"
      by blast
    have inv': "\<forall>i < length (res # rs).
        invoke env ((tc # tcs) ! i) ((w # ws) ! i) = (Inr ((res # rs) ! i), (w # ws) ! Suc i)"
    proof (intro allI impI)
      fix j
      assume "j < length (res # rs)"
      then show "invoke env ((tc # tcs) ! j) ((w # ws) ! j) =
          (Inr ((res # rs) ! j), (w # ws) ! Suc j)"
        using i Inr z inv by (cases j) simp_all
    qed
    have c': "case x of
          None \<Rightarrow> length (res # rs) = length (tc # tcs) \<and> w' = (w # ws) ! length (res # rs)
        | Some e \<Rightarrow> length (res # rs) < length (tc # tcs) \<and>
            invoke env ((tc # tcs) ! length (res # rs)) ((w # ws) ! length (res # rs)) = (Inl e, w')"
      using c by (cases x) simp_all
    from l le m inv' c' show ?thesis
      by (intro exI [of _ "res # rs"] exI [of _ "w # ws"]) simp
  qed
qed

lemma demo_batch_raises:
  "handle_tool_calls (demo_env r)
      [request ''call_1'' ''lookup_sales_data'' args_prompt,
       request ''call_2'' ''analyze_sales_data'' args_prompt_data,
       request ''call_3'' ''lookup_sales_data'' args_prompt] ms 1 =
     (Some (Raised ''Connection error.''), ms @ [tool_message ''rows of SELECT'' ''call_1''], 6)"
  by (simp add: demo_invoke_lookup demo_invoke_analyze)

text \<open>
  Claim C7 says that for every response with requests, the requests are dispatched in
  order and their tool messages appended in that order. \<^verbatim>\<open>handle_tool_calls\<close> has no
  handler, so a request that raises ends the batch: with a stub engine that requests a
  lookup, an analysis whose client call raises, and another lookup, the list gets the
  tool message of the first request only, and the third request is never dispatched.
\<close>

theorem raising_request_ends_batch_counterexample:
  "run_agent (demo_env (const_router (requesting
      [request ''call_1'' ''lookup_sales_data'' args_prompt,
       request ''call_2'' ''analyze_sales_data'' args_prompt_data,
       request ''call_3'' ''lookup_sales_data'' args_prompt]))) (Text ''hi'') 0 =
     Some \<lparr>result = Inl (Raised ''Connection error.''),
           final_messages =
             [Val (PDict [(''role'', PStr ''user''), (''content'', PStr ''hi'')]),
              Val (PDict [(''role'', PStr ''system''), (''content'', PStr SYSTEM_PROMPT)]),
              Obj (requesting
                [request ''call_1'' ''lookup_sales_data'' args_prompt,
                 request ''call_2'' ''analyze_sales_data'' args_prompt_data,
                 request ''call_3'' ''lookup_sales_data'' args_prompt]),
              Val (PDict [(''role'', PStr ''tool''), (''content'', PStr ''rows of SELECT''),
                          (''tool_call_id'', PStr ''call_1'')])],
           router_calls = 1, world = 6\<rparr>"
proof -
  let ?tcs = "[request ''call_1'' ''lookup_sales_data'' args_prompt,
       request ''call_2'' ''analyze_sales_data'' args_prompt_data,
       request ''call_3'' ''lookup_sales_data'' args_prompt]"
  let ?env = "demo_env (const_router (requesting ?tcs))"
  have r: "router_create ?env [user_message ''hi'', system_prompt] 0 = (Inr (requesting ?tcs), 1)"
    by (simp add: demo_env_sel const_router_def)
  have t: "tool_calls (requesting ?tcs) = Some ?tcs" by (simp add: requesting_def)
  from loop_body_raises [OF r t demo_batch_raises, of 0]
  have "run_agent ?env (Text ''hi'') 0 =
     Some \<lparr>result = Inl (Raised ''Connection error.''),
           final_messages =
             [user_message ''hi'', system_prompt, Obj (requesting ?tcs),
              tool_message ''rows of SELECT'' ''call_1''],
           router_calls = 1, world = 6\<rparr>"
    by (simp add: run_agent_def ensure_system_prompt_text)
  then show ?thesis
    by (simp only: user_message_def system_prompt_def tool_message_def)
qed

text \<open>
  Claim C7, amended. For every response with requests, \<^verbatim>\<open>handle_tool_calls\<close> invokes
  the requests one after the other in the order of the list, each on the world the one
  before left, until all are done or one raises. For each request that returned, in that
  same order, it appends the dictionary with role \<^verbatim>\<open>tool\<close>, the result as content and
  the \<^verbatim>\<open>id\<close> of the request as \<^verbatim>\<open>tool_call_id\<close>. When none raises there is one
  message per request; a request that raises ends the batch with its exception, and no
  message is appended for it or for the requests after it. A pass of the loop of
  \<^verbatim>\<open>run_agent\<close> appends the response and then these messages.
\<close>

theorem tool_results_follow_request_order:
  assumes "handle_tool_calls env tcs ms w = (x, ms', w')"
  shows "(\<exists>rs ws. length ws = Suc (length rs) \<and> length rs \<le> length tcs \<and> ws ! 0 = w \<and>
           (\<forall>i < length rs. invoke env (tcs ! i) (ws ! i) = (Inr (rs ! i), ws ! Suc i)) \<and>
           ms' = ms @ map2 (\<lambda>r tc. Val (PDict [(''role'', PStr ''tool''), (''content'', PStr r),
                                              (''tool_call_id'', PStr (call_id tc))])) rs tcs \<and>
           (case x of
              None \<Rightarrow> length rs = length tcs \<and> w' = ws ! length rs
            | Some e \<Rightarrow> length rs < length tcs \<and>
                invoke env (tcs ! length rs) (ws ! length rs) = (Inl e, w'))) \<and>
         (router_create env ms0 w0 = (Inr message, w) \<longrightarrow> tool_calls message = Some tcs \<longrightarrow>
          tcs \<noteq> [] \<longrightarrow> ms = ms0 @ [Obj message] \<longrightarrow>
            loop_body env (ms0, n, w0) =
              (case x of
                 None \<Rightarrow> Inr (ms', Suc n, w')
               | Some e \<Rightarrow> Inl \<lparr>result = Inl e, final_messages = ms', router_calls = Suc n,
                                 world = w'\<rparr>))"
proof
  from handle_tool_calls_trace [OF assms]
  show "\<exists>rs ws. length ws = Suc (length rs) \<and> length rs \<le> length tcs \<and> ws ! 0 = w \<and>
           (\<forall>i < length rs. invoke env (tcs ! i) (ws ! i) = (Inr (rs ! i), ws ! Suc i)) \<and>
           ms' = ms @ map2 (\<lambda>r tc. Val (PDict [(''role'', PStr ''tool''), (''content'', PStr r),
                                              (''tool_call_id'', PStr (call_id tc))])) rs tcs \<and>
           (case x of
              None \<Rightarrow> length rs = length tcs \<and> w' = ws ! length rs
            | Some e \<Rightarrow> length rs < length tcs \<and>
                invoke env (tcs ! length rs) (ws ! length rs) = (Inl e, w'))"
    by (simp only: tool_message_def)
  show "router_create env ms0 w0 = (Inr message, w) \<longrightarrow> tool_calls message = Some tcs \<longrightarrow>
          tcs \<noteq> [] \<longrightarrow> ms = ms0 @ [Obj message] \<longrightarrow>
            loop_body env (ms0, n, w0) =
              (case x of
                 None \<Rightarrow> Inr (ms', Suc n, w')
               | Some e \<Rightarrow> Inl \<lparr>result = Inl e, final_messages = ms', router_calls = Suc n,
                                 world = w'\<rparr>)"
    using assms by (cases x) (auto simp: Let_def)
qed

theorem tool_results_follow_request_order_witness:
  "handle_tool_calls
      (demo_env (const_router (requesting
         [request ''call_1'' ''lookup_sales_data'' args_prompt,
          request ''call_2'' ''lookup_sales_data'' args_prompt])))
      [request ''call_1'' ''lookup_sales_data'' args_prompt,
       request ''call_2'' ''lookup_sales_data'' args_prompt] ([user_message ''hi''] @
         [Obj (requesting
           [request ''call_1'' ''lookup_sales_data'' args_prompt,
            request ''call_2'' ''lookup_sales_data'' args_prompt])]) 1 =
     (None,
      [user_message ''hi'',
       Obj (requesting
         [request ''call_1'' ''lookup_sales_data'' args_prompt,
          request ''call_2'' ''lookup_sales_data'' args_prompt]),
       tool_message ''rows of SELECT'' ''call_1'',
       tool_message ''Error accessing data: Parser Error: syntax error at end of input''
         ''call_2''], 9) \<and>
   loop_body
      (demo_env (const_router (requesting
         [request ''call_1'' ''lookup_sales_data'' args_prompt,
          request ''call_2'' ''lookup_sales_data'' args_prompt])))
      ([user_message ''hi''], 0, 0) =
     Inr ([user_message ''hi'',
           Obj (requesting
             [request ''call_1'' ''lookup_sales_data'' args_prompt,
              request ''call_2'' ''lookup_sales_data'' args_prompt]),
           tool_message ''rows of SELECT'' ''call_1'',
           tool_message ''Error accessing data: Parser Error: syntax error at end of input''
             ''call_2''], 1, 9)"
proof -
  let ?tcs = "[request ''call_1'' ''lookup_sales_data'' args_prompt,
       request ''call_2'' ''lookup_sales_data'' args_prompt]"
  let ?env = "demo_env (const_router (requesting ?tcs))"
  let ?ms = "[user_message ''hi''] @ [Obj (requesting ?tcs)]"
  let ?ms' = "[user_message ''hi'', Obj (requesting ?tcs),
       tool_message ''rows of SELECT'' ''call_1'',
       tool_message ''Error accessing data: Parser Error: syntax error at end of input''
         ''call_2'']"
  have h: "handle_tool_calls ?env ?tcs ?ms 1 = (None, ?ms', 9)"
    by (simp add: demo_invoke_lookup)
  have r: "router_create ?env [user_message ''hi''] 0 = (Inr (requesting ?tcs), 1)"
    by (simp add: demo_env_sel const_router_def)
  have t: "tool_calls (requesting ?tcs) = Some ?tcs" by (simp add: requesting_def)
  note w = tool_results_follow_request_order
    [OF h, of "[user_message ''hi'']" 0 "requesting ?tcs" 0]
  from w r t have "loop_body ?env ([user_message ''hi''], 0, 0) =
      (case None of None \<Rightarrow> Inr (?ms', Suc 0, 9)
       | Some e \<Rightarrow> Inl \<lparr>result = Inl e, final_messages = ?ms', router_calls = Suc 0,
                         world = 9\<rparr>)"
    by blast
  then have l: "loop_body ?env ([user_message ''hi''], 0, 0) = Inr (?ms', 1, 9)"
    by simp
  from h l show ?thesis by blast
qed

section \<open>A text and a list as input\<close>

lemma run_steps_then_answer:
  assumes "run_steps env k s = Inr (ms, n, w1)"
    and "router_create env ms w1 = (Inr message, w2)"
    and "\<not> truthy (tool_calls message)"
  shows "run_loop env s =
           Some \<lparr>result = Inr (content message), final_messages = ms @ [Obj message],
                 router_calls = Suc n, world = w2\<rparr>"
proof -
  from assms(2,3) have "loop_body env (ms, n, w1) =
      Inl \<lparr>result = Inr (content message), final_messages = ms @ [Obj message],
           router_calls = Suc n, world = w2\<rparr>"
    by (simp add: Let_def)
  with assms(1) have "run_steps env (Suc k) s =
      Inl \<lparr>result = Inr (content message), final_messages = ms @ [Obj message],
           router_calls = Suc n, world = w2\<rparr>"
    by (simp only: run_steps_Suc_end sum.case)
  then show ?thesis by (rule run_steps_run_loop)
qed

text \<open>
  Claim C9 says that \<^verbatim>\<open>run_agent\<close> takes a string or a list of messages and in both
  cases returns the final answer as text. What it returns is the \<^verbatim>\<open>content\<close> of the
  response, which the client may leave \<^verbatim>\<open>None\<close>: with a stub engine whose response
  has neither text nor tool calls the run returns \<^verbatim>\<open>None\<close>.
\<close>

theorem answer_without_text_counterexample:
  "run_agent (demo_env (const_router silent)) (Text ''hi'') 0 =
     Some \<lparr>result = Inr None,
           final_messages =
             [Val (PDict [(''role'', PStr ''user''), (''content'', PStr ''hi'')]),
              Val (PDict [(''role'', PStr ''system''), (''content'', PStr SYSTEM_PROMPT)]),
              Obj silent],
           router_calls = 1, world = 1\<rparr>"
proof -
  have "run_agent (demo_env (const_router silent)) (Text ''hi'') 0 =
     Some \<lparr>result = Inr None,
           final_messages = [user_message ''hi'', system_prompt, Obj silent],
           router_calls = 1, world = 1\<rparr>"
    unfolding run_agent_def
    by (subst run_loop.simps)
       (simp add: ensure_system_prompt_text demo_env_sel const_router_def silent_def)
  then show ?thesis by (simp only: user_message_def system_prompt_def)
qed

text \<open>
  Claim C9, amended. \<^verbatim>\<open>run_agent\<close> takes a string or a list of messages. A string is
  wrapped as one user message before the loop starts, and from there the run is the run
  on that list. For both forms: as soon as, after any number \<open>k\<close> of passes with tool
  calls, the engine gives a response without tool calls, \<^verbatim>\<open>run_agent\<close> returns the
  \<^verbatim>\<open>content\<close> of that response, a text or \<^verbatim>\<open>None\<close>, after \<open>k + 1\<close> router calls,
  with the response as the last message of the list; and whatever a run returns is the
  \<^verbatim>\<open>content\<close> of such a response.
\<close>

theorem text_and_list_inputs_agree:
  "as_messages (Text q) = [Val (PDict [(''role'', PStr ''user''), (''content'', PStr q)])] \<and>
   run_agent env (Text q) w =
     run_agent env (Messages [Val (PDict [(''role'', PStr ''user''), (''content'', PStr q)])]) w \<and>
   (run_steps env k (ensure_system_prompt (as_messages inp), 0, w) = Inr (ms, n, w1) \<longrightarrow>
    router_create env ms w1 = (Inr message, w2) \<longrightarrow> \<not> truthy (tool_calls message) \<longrightarrow>
      run_agent env inp w =
        Some \<lparr>result = Inr (content message), final_messages = ms @ [Obj message],
              router_calls = Suc k, world = w2\<rparr>) \<and>
   (run_agent env inp w = Some out \<longrightarrow> result out = Inr c \<longrightarrow>
      (\<exists>ms message. final_messages out = ms @ [Obj message] \<and> content message = c \<and>
         \<not> truthy (tool_calls message)))"
proof (intro conjI impI)
  show "as_messages (Text q) = [Val (PDict [(''role'', PStr ''user''), (''content'', PStr q)])]"
    by (simp add: user_message_def)
  show "run_agent env (Text q) w =
     run_agent env (Messages [Val (PDict [(''role'', PStr ''user''), (''content'', PStr q)])]) w"
    by (simp add: run_agent_def user_message_def)
next
  assume r: "run_steps env k (ensure_system_prompt (as_messages inp), 0, w) = Inr (ms, n, w1)"
    and a: "router_create env ms w1 = (Inr message, w2)"
    and t: "\<not> truthy (tool_calls message)"
  from run_steps_Inr [OF r] have "n = k" by simp
  with run_steps_then_answer [OF r a t]
  show "run_agent env inp w =
        Some \<lparr>result = Inr (content message), final_messages = ms @ [Obj message],
              router_calls = Suc k, world = w2\<rparr>"
    by (simp add: run_agent_def)
next
  assume a: "run_agent env inp w = Some out" and c: "result out = Inr c"
  from a obtain k where
    "run_steps env k (ensure_system_prompt (as_messages inp), 0, w) = Inl out"
    unfolding run_agent_def using run_loop_run_steps by blast
  from run_steps_answer [OF this c]
  show "\<exists>ms message. final_messages out = ms @ [Obj message] \<and> content message = c \<and>
         \<not> truthy (tool_calls message)" .
qed

theorem text_and_list_inputs_agree_witness:
  "run_steps (demo_env (script_router
       [requesting [request ''call_1'' ''lookup_sales_data'' args_prompt], answering ''done'']))
     1 (ensure_system_prompt (as_messages (Text ''hi'')), 0, 0) =
     Inr ([user_message ''hi'', system_prompt,
         Obj (requesting [request ''call_1'' ''lookup_sales_data'' args_prompt]),
         tool_message ''rows of SELECT'' ''call_1''], 1, 5) \<and>
   router_create (demo_env (script_router
       [requesting [request ''call_1'' ''lookup_sales_data'' args_prompt], answering ''done'']))
     [user_message ''hi'', system_prompt,
         Obj (requesting [request ''call_1'' ''lookup_sales_data'' args_prompt]),
         tool_message ''rows of SELECT'' ''call_1''] 5 = (Inr (answering ''done''), 6) \<and>
   \<not> truthy (tool_calls (answering ''done'')) \<and>
   run_agent (demo_env (script_router
       [requesting [request ''call_1'' ''lookup_sales_data'' args_prompt], answering ''done'']))
     (Text ''hi'') 0 =
     Some \<lparr>result = Inr (Some ''done''),
           final_messages = [user_message ''hi'', system_prompt,
             Obj (requesting [request ''call_1'' ''lookup_sales_data'' args_prompt]),
             tool_message ''rows of SELECT'' ''call_1'', Obj (answering ''done'')],
           router_calls = 2, world = 6\<rparr>"
proof -
  let ?env = "demo_env (script_router
       [requesting [request ''call_1'' ''lookup_sales_data'' args_prompt], answering ''done''])"
  let ?ms = "[user_message ''hi'', system_prompt,
         Obj (requesting [request ''call_1'' ''lookup_sales_data'' args_prompt]),
         tool_message ''rows of SELECT'' ''call_1'']"
  have s: "run_steps ?env 1 (ensure_system_prompt (as_messages (Text ''hi'')), 0, 0) =
      Inr (?ms, 1, 5)"
    by (simp only: as_messages.simps ensure_system_prompt_text One_nat_def run_steps.simps
        demo_script_pass1 [unfolded One_nat_def] sum.case)
  have r: "router_create ?env ?ms 5 = (Inr (answering ''done''), 6)"
    by (simp add: demo_env_sel script_router_def)
  have t: "\<not> truthy (tool_calls (answering ''done''))" by (simp add: answering_def)
  note th = text_and_list_inputs_agree [of "''hi''" ?env 0 1 "Text ''hi''" ?ms 1 5
      "answering ''done''" 6]
  from th s r t have "run_agent ?env (Text ''hi'') 0 =
      Some \<lparr>result = Inr (content (answering ''done'')),
            final_messages = ?ms @ [Obj (answering ''done'')],
            router_calls = Suc 1, world = 6\<rparr>"
    by blast
  then have run: "run_agent ?env (Text ''hi'') 0 =
     Some \<lparr>result = Inr (Some ''done''),
           final_messages = [user_message ''hi'', system_prompt,
             Obj (requesting [request ''call_1'' ''lookup_sales_data'' args_prompt]),
             tool_message ''rows of SELECT'' ''call_1'', Obj (answering ''done'')],
           router_calls = 2, world = 6\<rparr>"
    by (simp add: answering_def)
  from s r t run show ?thesis by blast
qed

section \<open>The default chart configuration\<close>

lemma extract_chart_config_try_Instance:
  assumes "map_of attrs ''chart_type'' = Some ct" and "map_of attrs ''x_axis'' = Some xa"
    and "map_of attrs ''y_axis'' = Some ya" and "map_of attrs ''title'' = Some ti"
  shows "extract_chart_config_try (Instance attrs) data =
     Inr [(''chart_type'', ct), (''x_axis'', xa), (''y_axis'', ya), (''title'', ti),
          (''data'', data)]"
  using assms by (simp add: read_attribute_def)

lemma extract_chart_config_try_unusable:
  assumes "cont = NoneObj \<or> (\<exists>s. cont = StrObj s) \<or>
     (\<exists>attrs. cont = Instance attrs \<and>
        list_ex (\<lambda>a. map_of attrs a = None) [''chart_type'', ''x_axis'', ''y_axis'', ''title''])"
  shows "\<exists>e. extract_chart_config_try cont data = Inl e"
  using assms by (auto simp: read_attribute_def split: option.splits)

text \<open>
  Claim C10 says that \<^verbatim>\<open>extract_chart_config\<close> does not fail when the structured
  output of the engine is malformed or unusable, and returns the default configuration.
  The \<^verbatim>\<open>try\<close> block holds the reads of the response only: the call
  \<^verbatim>\<open>client.beta.chat.completions.parse\<close> is before it, and an exception of that call,
  which is how the client reports a payload it cannot parse, leaves
  \<^verbatim>\<open>extract_chart_config\<close>.
\<close>

theorem parse_raises_counterexample:
  "extract_chart_config (parse_raises_env (const_router silent))
     (PStr ''Store_Number  Total_Sale_Value'') (PStr ''A bar chart of sales by store'') 0 =
     (Inl (Raised ''1 validation error for VisualizationConfig''), 1)"
  by (simp add: extract_chart_config_def parse_raises_env_def)

text \<open>
  Claim C10, amended. An exception raised by the structured-output call of the client
  leaves \<^verbatim>\<open>extract_chart_config\<close>. When the call returns a response, the function
  returns a configuration and does not raise: when one of the attributes
  \<^verbatim>\<open>chart_type\<close>, \<^verbatim>\<open>x_axis\<close>, \<^verbatim>\<open>y_axis\<close>, \<^verbatim>\<open>title\<close> cannot be read from the
  content of the response, as is the case for \<^verbatim>\<open>None\<close> and for a string, the result
  is the fixed default, a line chart over \<^verbatim>\<open>date\<close> and \<^verbatim>\<open>value\<close>, titled with the
  visualization goal, on the input data; when all four can be read, the result holds
  them and the input data.
\<close>

theorem chart_config_falls_back_to_default:
  "(chart_configuration_parse env data visualization_goal w = (Inl m, w') \<longrightarrow>
      extract_chart_config env data visualization_goal w = (Inl (Raised m), w')) \<and>
   (chart_configuration_parse env data visualization_goal w = (Inr cont, w') \<longrightarrow>
      (\<exists>config. extract_chart_config env data visualization_goal w = (Inr config, w')) \<and>
      (cont = NoneObj \<or> (\<exists>s. cont = StrObj s) \<or>
       (\<exists>attrs. cont = Instance attrs \<and>
          list_ex (\<lambda>a. map_of attrs a = None) [''chart_type'', ''x_axis'', ''y_axis'', ''title''])
       \<longrightarrow>
         extract_chart_config env data visualization_goal w =
           (Inr [(''chart_type'', PStr ''line''), (''x_axis'', PStr ''date''),
                 (''y_axis'', PStr ''value''), (''title'', visualization_goal),
                 (''data'', data)], w')) \<and>
      (cont = Instance attrs \<longrightarrow> map_of attrs ''chart_type'' = Some ct \<longrightarrow>
       map_of attrs ''x_axis'' = Some xa \<longrightarrow> map_of attrs ''y_axis'' = Some ya \<longrightarrow>
       map_of attrs ''title'' = Some ti \<longrightarrow>
         extract_chart_config env data visualization_goal w =
           (Inr [(''chart_type'', ct), (''x_axis'', xa), (''y_axis'', ya), (''title'', ti),
                 (''data'', data)], w')))"
proof (intro conjI impI)
  show "extract_chart_config env data visualization_goal w = (Inl (Raised m), w')"
    if "chart_configuration_parse env data visualization_goal w = (Inl m, w')"
    using that by (simp add: extract_chart_config_def)
  show "\<exists>config. extract_chart_config env data visualization_goal w = (Inr config, w')"
    if "chart_configuration_parse env data visualization_goal w = (Inr cont, w')"
    using that by (simp add: extract_chart_config_def split: sum.splits)
  show "extract_chart_config env data visualization_goal w =
           (Inr [(''chart_type'', PStr ''line''), (''x_axis'', PStr ''date''),
                 (''y_axis'', PStr ''value''), (''title'', visualization_goal),
                 (''data'', data)], w')"
    if p: "chart_configuration_parse env data visualization_goal w = (Inr cont, w')"
      and u: "cont = NoneObj \<or> (\<exists>s. cont = StrObj s) \<or>
       (\<exists>attrs. cont = Instance attrs \<and>
          list_ex (\<lambda>a. map_of attrs a = None) [''chart_type'', ''x_axis'', ''y_axis'', ''title''])"
  proof -
    from extract_chart_config_try_unusable [OF u] obtain e where
      "extract_chart_config_try cont data = Inl e" by blast
    with p show ?thesis by (simp add: extract_chart_config_def default_chart_config_def)
  qed
  show "extract_chart_config env data visualization_goal w =
           (Inr [(''chart_type'', ct), (''x_axis'', xa), (''y_axis'', ya), (''title'', ti),
                 (''data'', data)], w')"
    if p: "chart_configuration_parse env data visualization_goal w = (Inr cont, w')"
      and c: "cont = Instance attrs"
      and a: "map_of attrs ''chart_type'' = Some ct" "map_of attrs ''x_axis'' = Some xa"
        "map_of attrs ''y_axis'' = Some ya" "map_of attrs ''title'' = Some ti"
    using p c extract_chart_config_try_Instance [OF a, of data]
    by (simp add: extract_chart_config_def)
qed

theorem chart_config_falls_back_to_default_witness:
  "chart_configuration_parse (demo_env (const_router (answering ''done'')))
     (PStr ''rows'') (PStr ''sales by store'') 0 = (Inr (StrObj ''{}''), 1) \<and>
   extract_chart_config (demo_env (const_router (answering ''done'')))
     (PStr ''rows'') (PStr ''sales by store'') 0 =
     (Inr [(''chart_type'', PStr ''line''), (''x_axis'', PStr ''date''),
           (''y_axis'', PStr ''value''), (''title'', PStr ''sales by store''),
           (''data'', PStr ''rows'')], 1) \<and>
   chart_configuration_parse (parse_raises_env (const_router (answering ''done'')))
     (PStr ''rows'') (PStr ''sales by store'') 0 =
     (Inl ''1 validation error for VisualizationConfig'', 1) \<and>
   extract_chart_config (parse_raises_env (const_router (answering ''done'')))
     (PStr ''rows'') (PStr ''sales by store'') 0 =
     (Inl (Raised ''1 validation error for VisualizationConfig''), 1)"
proof -
  let ?env = "demo_env (const_router (answering ''done''))"
  let ?renv = "parse_raises_env (const_router (answering ''done''))"
  have p: "chart_configuration_parse ?env (PStr ''rows'') (PStr ''sales by store'') 0 =
      (Inr (StrObj ''{}''), 1)"
    by (simp add: demo_env_sel)
  have u: "\<exists>s. StrObj ''{}'' = StrObj s" by blast
  from chart_config_falls_back_to_default
    [of ?env "PStr ''rows''" "PStr ''sales by store''" 0 "[]" 1 "StrObj ''{}''"] p u
  have d: "extract_chart_config ?env (PStr ''rows'') (PStr ''sales by store'') 0 =
     (Inr [(''chart_type'', PStr ''line''), (''x_axis'', PStr ''date''),
           (''y_axis'', PStr ''value''), (''title'', PStr ''sales by store''),
           (''data'', PStr ''rows'')], 1)"
    by blast
  have q: "chart_configuration_parse ?renv (PStr ''rows'') (PStr ''sales by store'') 0 =
     (Inl ''1 validation error for VisualizationConfig'', 1)"
    by (simp add: parse_raises_env_def)
  from chart_config_falls_back_to_default
    [of ?renv "PStr ''rows''" "PStr ''sales by store''" 0
        "''1 validation error for VisualizationConfig''" 1] q
  have x: "extract_chart_config ?renv (PStr ''rows'') (PStr ''sales by store'') 0 =
     (Inl (Raised ''1 validation error for VisualizationConfig''), 1)"
    by blast
  from p d q x show ?thesis by blast
qed

end
